theory Spec2Isabelle
  imports Complex_Main "HOL-Library.AList" "HOL-Library.Sublist"
begin

section \<open>JSON values as the client sees them\<close>

text \<open>
  The API client (\<^verbatim>\<open>services/api.ts\<close>) works on whatever \<^verbatim>\<open>response.json()\<close> and
  \<^verbatim>\<open>JSON.parse\<close> decode; the TypeScript types are erased at run time. A decoded value is
  one of the six JSON shapes. An object is an association list read with \<open>map_of\<close>,
  written with \<open>AList.update\<close> (an existing key keeps its place, a new key goes last) and
  shrunk with \<open>AList.delete\<close>. Numbers are integers here: the client only ever tests a
  number for truthiness.
\<close>

datatype json =
    JNull
  | JBool bool
  | JNum int
  | JStr string
  | JArr "json list"
  | JObj "(string \<times> json) list"

text \<open>
  What the client can raise. \<open>Error m\<close> is \<^verbatim>\<open>new Error(m)\<close>; \<open>NullRead k\<close> is the
  TypeError of reading property \<open>k\<close> of \<^verbatim>\<open>null\<close>; \<open>Raised t\<close> is an exception raised by
  a collaborator outside the client (the transport, the JSON decoder, the identity
  provider, a string coercion), identified by a tag.
\<close>

datatype error = Error string | NullRead string | Raised string

text \<open>JavaScript truthiness of a decoded value.\<close>

fun truthy :: "json \<Rightarrow> bool" where
  "truthy JNull = False"
| "truthy (JBool b) = b"
| "truthy (JNum n) = (n \<noteq> 0)"
| "truthy (JStr s) = (s \<noteq> [])"
| "truthy (JArr xs) = True"
| "truthy (JObj kvs) = True"

text \<open>
  \<^verbatim>\<open>v.k\<close> for a value \<open>v\<close> that is not \<^verbatim>\<open>null\<close>: \<open>None\<close> is \<^verbatim>\<open>undefined\<close>. Only the
  names \<^verbatim>\<open>body\<close>, \<^verbatim>\<open>books\<close>, \<^verbatim>\<open>bookIds\<close>, \<^verbatim>\<open>message\<close>, \<^verbatim>\<open>error\<close> and
  \<^verbatim>\<open>recommendations\<close> are ever read, none of which a string, number, boolean or
  array has.
\<close>

fun js_get :: "json \<Rightarrow> string \<Rightarrow> json option" where
  "js_get (JObj kvs) k = map_of kvs k"
| "js_get v k = None"

text \<open>\<^verbatim>\<open>v.k = x\<close> and \<^verbatim>\<open>delete v.k\<close> on an object.\<close>

fun js_set :: "json \<Rightarrow> string \<Rightarrow> json \<Rightarrow> json" where
  "js_set (JObj kvs) k x = JObj (AList.update k x kvs)"
| "js_set v k x = v"

fun js_delete :: "json \<Rightarrow> string \<Rightarrow> json" where
  "js_delete (JObj kvs) k = JObj (AList.delete k kvs)"
| "js_delete v k = v"

text \<open>The value of \<^verbatim>\<open>v.k\<close> when it is truthy (the test \<^verbatim>\<open>if (v.k)\<close>, \<open>v\<close> not null).\<close>

definition truthy_field :: "json \<Rightarrow> string \<Rightarrow> json option" where
  "truthy_field v k =
     (case js_get v k of
        None \<Rightarrow> None
      | Some x \<Rightarrow> if truthy x then Some x else None)"

fun isArray :: "json \<Rightarrow> bool" where
  "isArray (JArr xs) = True"
| "isArray v = False"

text \<open>The value of \<^verbatim>\<open>v.k\<close> when \<^verbatim>\<open>v.k && Array.isArray(v.k)\<close> holds.\<close>

definition array_field :: "json \<Rightarrow> string \<Rightarrow> json option" where
  "array_field v k =
     (case truthy_field v k of
        None \<Rightarrow> None
      | Some x \<Rightarrow> if isArray x then Some x else None)"

text \<open>
  The Lambda-proxy test \<^verbatim>\<open>data.body && typeof data.body === 'string'\<close> on a value that
  is not null: the string when the test holds. An empty string is falsy.
\<close>

definition proxy_body :: "json \<Rightarrow> string option" where
  "proxy_body data =
     (case js_get data ''body'' of
        Some (JStr s) \<Rightarrow> if s = [] then None else Some s
      | _ \<Rightarrow> None)"

text \<open>
  The block \<^verbatim>\<open>if (x.books && !x.bookIds) { x.bookIds = x.books; delete x.books; }\<close>
  that \<^verbatim>\<open>createReadingList\<close> and \<^verbatim>\<open>updateReadingList\<close> each contain twice, on a value
  that is not null.
\<close>

definition convert_books :: "json \<Rightarrow> json" where
  "convert_books x =
     (case truthy_field x ''books'' of
        None \<Rightarrow> x
      | Some b \<Rightarrow>
          if truthy_field x ''bookIds'' = None
          then js_delete (js_set x ''bookIds'' b) ''books''
          else x)"

text \<open>The decimal digits of a number, as a template literal prints \<^verbatim>\<open>response.status\<close>.\<close>

function show_nat :: "nat \<Rightarrow> string" where
  "show_nat n =
     (if n < 10 then [''0123456789'' ! n]
      else show_nat (n div 10) @ [''0123456789'' ! (n mod 10)])"
  by pat_completeness auto
termination
  by (relation "measure (\<lambda>n. n)") auto

declare show_nat.simps [simp del]

section \<open>The world outside the client\<close>

datatype http_verb = GET | POST | PUT | DELETE

text \<open>A call of \<^verbatim>\<open>fetch(url, {method, headers, body})\<close>; the body is the value given to
  \<^verbatim>\<open>JSON.stringify\<close>.\<close>

record request =
  req_method :: http_verb
  req_url :: string
  req_headers :: "(string \<times> string) list"
  req_body :: "json option"

text \<open>A \<^verbatim>\<open>Response\<close>: \<open>resp_json\<close> is what \<^verbatim>\<open>await response.json()\<close> gives, \<open>Inl\<close> when
  the body does not decode.\<close>

record response =
  status :: nat
  statusText :: string
  resp_json :: "error + json"

definition ok :: "response \<Rightarrow> bool" where
  "ok r \<longleftrightarrow> 200 \<le> status r \<and> status r \<le> 299"

text \<open>Modelled from the spec: the \<^verbatim>\<open>Book\<close> type of \<^verbatim>\<open>@/types\<close>, which is not among the
  sources; the fields are those of the data model.\<close>

record book =
  book_id :: string
  title :: string
  author :: string
  book_description :: string
  genre :: string
  publishedYear :: int
  isbn :: string
  coverImage :: string
  rating :: rat

text \<open>
  Everything the client reads from outside: the configured base URL, the identity
  provider's session (the id token, \<open>None\<close> when the session has none, \<open>Inl\<close> when
  \<^verbatim>\<open>fetchAuthSession\<close> rejects), the transport, the JSON decoder, the language's string
  coercion of a value that is not a string, and the \<^verbatim>\<open>mockBooks\<close> table of
  \<^verbatim>\<open>./mockData\<close> (not among the sources).
\<close>

record env =
  API_BASE_URL :: string
  fetchAuthSession :: "error + string option"
  fetch :: "request \<Rightarrow> error + response"
  JSON_parse :: "string \<Rightarrow> error + json"
  coerce :: "json \<Rightarrow> error + string"
  mockBooks :: "book list"

text \<open>\<^verbatim>\<open>`${v}`\<close> and \<^verbatim>\<open>new Error(v)\<close> for a defined value: a string is itself.\<close>

definition js_String :: "env \<Rightarrow> json \<Rightarrow> error + string" where
  "js_String env v = (case v of JStr s \<Rightarrow> Inr s | _ \<Rightarrow> coerce env v)"

text \<open>What a call of the client does to the outside, in order, and what it returns or
  raises.\<close>

datatype io = Fetch request | Timer nat

type_synonym 'a call = "io list \<times> (error + 'a)"

section \<open>The API client\<close>

definition getAuthHeaders :: "env \<Rightarrow> (string \<times> string) list" where
  "getAuthHeaders env =
     (case fetchAuthSession env of
        Inr token \<Rightarrow>
          [(''Authorization'',
            ''Bearer '' @ (case token of Some t \<Rightarrow> t | None \<Rightarrow> ''undefined'')),
           (''Content-Type'', ''application/json'')]
      | Inl e \<Rightarrow> [(''Content-Type'', ''application/json'')])"

definition getBooks :: "env \<Rightarrow> json call" where
  "getBooks env =
     (let req = \<lparr>req_method = GET, req_url = API_BASE_URL env @ ''/books'',
                 req_headers = [], req_body = None\<rparr>
      in ([Fetch req],
          case fetch env req of
            Inl e \<Rightarrow> Inl e
          | Inr response \<Rightarrow>
              if \<not> ok response then
                Inl (Error (''Failed to fetch books: '' @ show_nat (status response)
                            @ '' '' @ statusText response))
              else
                (case resp_json response of
                   Inl e \<Rightarrow> Inl e
                 | Inr data \<Rightarrow>
                     if data = JNull then Inl (NullRead ''body'')
                     else
                       (let direct = (if isArray data then Inr data else Inr (JArr []))
                        in case proxy_body data of
                             None \<Rightarrow> direct
                           | Some s \<Rightarrow>
                               (case JSON_parse env s of
                                  Inl e \<Rightarrow> Inl e
                                | Inr parsedBody \<Rightarrow>
                                    if isArray parsedBody then Inr parsedBody
                                    else direct)))))"

text \<open>\<^verbatim>\<open>getBook\<close> resolves from the mock table inside a 300 ms timer; an object is truthy,
  so \<^verbatim>\<open>book || null\<close> is the book found or null.\<close>

definition getBook :: "env \<Rightarrow> string \<Rightarrow> book option call" where
  "getBook env i = ([Timer 300], Inr (find (\<lambda>b. book_id b = i) (mockBooks env)))"

definition createBook :: "env \<Rightarrow> json \<Rightarrow> json call" where
  "createBook env book =
     (let req = \<lparr>req_method = POST, req_url = API_BASE_URL env @ ''/books'',
                 req_headers = getAuthHeaders env, req_body = Some book\<rparr>
      in ([Fetch req],
          case fetch env req of
            Inl e \<Rightarrow> Inl e
          | Inr response \<Rightarrow>
              if \<not> ok response then
                Inl (Error (''Failed to create book: '' @ show_nat (status response)
                            @ '' '' @ statusText response))
              else
                (case resp_json response of
                   Inl e \<Rightarrow> Inl e
                 | Inr data \<Rightarrow>
                     if data = JNull then Inl (NullRead ''body'')
                     else
                       (case proxy_body data of
                          None \<Rightarrow> Inr data
                        | Some s \<Rightarrow> JSON_parse env s))))"

definition updateBook :: "env \<Rightarrow> string \<Rightarrow> json \<Rightarrow> json call" where
  "updateBook env i book =
     (let req = \<lparr>req_method = PUT, req_url = API_BASE_URL env @ ''/books/'' @ i,
                 req_headers = getAuthHeaders env, req_body = Some book\<rparr>
      in ([Fetch req],
          case fetch env req of
            Inl e \<Rightarrow> Inl e
          | Inr response \<Rightarrow>
              if \<not> ok response then
                Inl (Error (''Failed to update book: '' @ show_nat (status response)
                            @ '' '' @ statusText response))
              else
                (case resp_json response of
                   Inl e \<Rightarrow> Inl e
                 | Inr data \<Rightarrow>
                     if data = JNull then Inl (NullRead ''body'')
                     else
                       (case proxy_body data of
                          None \<Rightarrow> Inr data
                        | Some s \<Rightarrow> JSON_parse env s))))"

text \<open>\<^verbatim>\<open>deleteBook(id?)\<close>: \<^verbatim>\<open>!id\<close> holds for a missing and for an empty id.\<close>

definition deleteBook :: "env \<Rightarrow> string option \<Rightarrow> unit call" where
  "deleteBook env i =
     (case i of
        None \<Rightarrow> ([], Inl (Error ''Book ID is required for deletion''))
      | Some s \<Rightarrow>
          if s = [] then ([], Inl (Error ''Book ID is required for deletion''))
          else
            (let req = \<lparr>req_method = DELETE, req_url = API_BASE_URL env @ ''/books/'' @ s,
                        req_headers = getAuthHeaders env, req_body = None\<rparr>
             in ([Fetch req],
                 case fetch env req of
                   Inl e \<Rightarrow> Inl e
                 | Inr response \<Rightarrow>
                     if \<not> ok response then
                       Inl (Error (''Failed to delete book: '' @ show_nat (status response)
                                   @ '' '' @ statusText response))
                     else Inr ())))"

definition getRecommendations :: "env \<Rightarrow> string \<Rightarrow> json call" where
  "getRecommendations env query =
     (let req = \<lparr>req_method = POST, req_url = API_BASE_URL env @ ''/recommendations'',
                 req_headers = getAuthHeaders env,
                 req_body = Some (JObj [(''query'', JStr query)])\<rparr>
      in ([Fetch req],
          case fetch env req of
            Inl e \<Rightarrow> Inl e
          | Inr response \<Rightarrow>
              if \<not> ok response then
                (if status response = 429 then
                   (case resp_json response of
                      Inl e \<Rightarrow> Inl e
                    | Inr errorData \<Rightarrow>
                        if errorData = JNull then Inl (NullRead ''error'')
                        else
                          (case truthy_field errorData ''error'' of
                             Some m \<Rightarrow>
                               (case js_String env m of
                                  Inl e \<Rightarrow> Inl e
                                | Inr s \<Rightarrow> Inl (Error s))
                           | None \<Rightarrow>
                               Inl (Error ''AI service rate limit exceeded. Please try again in 24 hours.'')))
                 else Inl (Error ''Failed to get recommendations''))
              else
                (case resp_json response of
                   Inl e \<Rightarrow> Inl e
                 | Inr data \<Rightarrow>
                     if data = JNull then Inl (NullRead ''body'')
                     else
                       (let direct =
                              (case array_field data ''recommendations'' of
                                 Some r \<Rightarrow> Inr r
                               | None \<Rightarrow>
                                   if isArray data then Inr data
                                   else Inl (Error ''Unexpected API response format''))
                        in case proxy_body data of
                             None \<Rightarrow> direct
                           | Some s \<Rightarrow>
                               (case JSON_parse env s of
                                  Inl e \<Rightarrow> Inl e
                                | Inr parsedBody \<Rightarrow>
                                    if parsedBody = JNull then Inl (NullRead ''recommendations'')
                                    else
                                      (case array_field parsedBody ''recommendations'' of
                                         Some r \<Rightarrow> Inr r
                                       | None \<Rightarrow>
                                           if isArray parsedBody then Inr parsedBody
                                           else direct))))))"

definition getReadingLists :: "env \<Rightarrow> json call" where
  "getReadingLists env =
     (let req = \<lparr>req_method = GET, req_url = API_BASE_URL env @ ''/reading-lists'',
                 req_headers = getAuthHeaders env, req_body = None\<rparr>
      in ([Fetch req],
          case fetch env req of
            Inl e \<Rightarrow> Inl e
          | Inr response \<Rightarrow>
              if \<not> ok response then
                (let errorMessage = ''Failed to fetch reading lists: ''
                                    @ show_nat (status response) @ '' '' @ statusText response;
                     detail =
                       (case resp_json response of
                          Inl e \<Rightarrow> None
                        | Inr errorData \<Rightarrow>
                            if errorData = JNull then None
                            else
                              (case truthy_field errorData ''message'' of
                                 Some m \<Rightarrow>
                                   (case js_String env m of Inl e \<Rightarrow> None | Inr s \<Rightarrow> Some s)
                               | None \<Rightarrow>
                                   (case truthy_field errorData ''body'' of
                                      None \<Rightarrow> None
                                    | Some b \<Rightarrow>
                                        (case (case b of JStr s \<Rightarrow> JSON_parse env s | _ \<Rightarrow> Inr b) of
                                           Inl e \<Rightarrow> None
                                         | Inr parsedBody \<Rightarrow>
                                             if parsedBody = JNull then None
                                             else
                                               (case truthy_field parsedBody ''message'' of
                                                  None \<Rightarrow> None
                                                | Some m \<Rightarrow>
                                                    (case js_String env m of
                                                       Inl e \<Rightarrow> None
                                                     | Inr s \<Rightarrow> Some s))))))
                 in Inl (Error (case detail of
                                  None \<Rightarrow> errorMessage
                                | Some d \<Rightarrow> errorMessage @ '' - '' @ d)))
              else
                (case resp_json response of
                   Inl e \<Rightarrow> Inl e
                 | Inr data \<Rightarrow>
                     if data = JNull then Inl (NullRead ''body'')
                     else
                       (case proxy_body data of
                          Some s \<Rightarrow>
                            (case JSON_parse env s of
                               Inl e \<Rightarrow> Inl e
                             | Inr parsedBody \<Rightarrow>
                                 if isArray parsedBody then Inr parsedBody
                                 else Inl (Error ''API response body is not an array''))
                        | None \<Rightarrow>
                            if isArray data then Inr data
                            else Inl (Error ''Unexpected API response format'')))))"

definition createReadingList :: "env \<Rightarrow> json \<Rightarrow> json call" where
  "createReadingList env list =
     (let req = \<lparr>req_method = POST, req_url = API_BASE_URL env @ ''/reading-lists'',
                 req_headers = getAuthHeaders env, req_body = Some list\<rparr>
      in ([Fetch req],
          case fetch env req of
            Inl e \<Rightarrow> Inl e
          | Inr response \<Rightarrow>
              if \<not> ok response then
                Inl (Error (''Failed to create reading list: '' @ show_nat (status response)
                            @ '' '' @ statusText response))
              else
                (case resp_json response of
                   Inl e \<Rightarrow> Inl e
                 | Inr data \<Rightarrow>
                     if data = JNull then Inl (NullRead ''body'')
                     else
                       (case proxy_body data of
                          Some s \<Rightarrow>
                            (case JSON_parse env s of
                               Inl e \<Rightarrow> Inl e
                             | Inr parsedBody \<Rightarrow>
                                 if parsedBody = JNull then Inl (NullRead ''books'')
                                 else Inr (convert_books parsedBody))
                        | None \<Rightarrow>
                            if truthy_field data ''bookIds'' \<noteq> None
                               \<or> truthy_field data ''books'' \<noteq> None
                            then Inr (convert_books data)
                            else Inl (Error ''Unexpected API response format'')))))"

definition updateReadingList :: "env \<Rightarrow> string \<Rightarrow> json \<Rightarrow> json call" where
  "updateReadingList env i list =
     (let req = \<lparr>req_method = PUT, req_url = API_BASE_URL env @ ''/reading-lists/'' @ i,
                 req_headers = getAuthHeaders env, req_body = Some list\<rparr>
      in ([Fetch req],
          case fetch env req of
            Inl e \<Rightarrow> Inl e
          | Inr response \<Rightarrow>
              if \<not> ok response then
                (let errorMessage = ''Failed to update reading list: ''
                                    @ show_nat (status response) @ '' '' @ statusText response;
                     detail =
                       (case resp_json response of
                          Inl e \<Rightarrow> None
                        | Inr errorData \<Rightarrow>
                            if errorData = JNull then None
                            else
                              (case truthy_field errorData ''message'' of
                                 Some m \<Rightarrow>
                                   (case js_String env m of Inl e \<Rightarrow> None | Inr s \<Rightarrow> Some s)
                               | None \<Rightarrow>
                                   (case truthy_field errorData ''body'' of
                                      None \<Rightarrow> None
                                    | Some b \<Rightarrow>
                                        (case (case b of JStr s \<Rightarrow> JSON_parse env s | _ \<Rightarrow> Inr b) of
                                           Inl e \<Rightarrow> None
                                         | Inr parsedBody \<Rightarrow>
                                             if parsedBody = JNull then None
                                             else
                                               (case (case truthy_field parsedBody ''message'' of
                                                        Some m \<Rightarrow> Some m
                                                      | None \<Rightarrow> truthy_field parsedBody ''error'') of
                                                  None \<Rightarrow> None
                                                | Some m \<Rightarrow>
                                                    (case js_String env m of
                                                       Inl e \<Rightarrow> None
                                                     | Inr s \<Rightarrow> Some s))))))
                 in Inl (Error (case detail of
                                  None \<Rightarrow> errorMessage
                                | Some d \<Rightarrow> errorMessage @ '' - '' @ d)))
              else
                (case resp_json response of
                   Inl e \<Rightarrow> Inl e
                 | Inr data \<Rightarrow>
                     if data = JNull then Inl (NullRead ''body'')
                     else
                       (case proxy_body data of
                          Some s \<Rightarrow>
                            (case JSON_parse env s of
                               Inl e \<Rightarrow> Inl e
                             | Inr parsedBody \<Rightarrow>
                                 if parsedBody = JNull then Inl (NullRead ''books'')
                                 else Inr (convert_books parsedBody))
                        | None \<Rightarrow>
                            if truthy_field data ''bookIds'' \<noteq> None
                               \<or> truthy_field data ''books'' \<noteq> None
                            then Inr (convert_books data)
                            else Inl (Error ''Unexpected API response format'')))))"

definition deleteReadingList :: "env \<Rightarrow> string \<Rightarrow> unit call" where
  "deleteReadingList env i =
     (let req = \<lparr>req_method = DELETE, req_url = API_BASE_URL env @ ''/reading-lists/'' @ i,
                 req_headers = getAuthHeaders env, req_body = None\<rparr>
      in ([Fetch req],
          case fetch env req of
            Inl e \<Rightarrow> Inl e
          | Inr response \<Rightarrow>
              if \<not> ok response then
                Inl (Error (''Failed to delete reading list: '' @ show_nat (status response)
                            @ '' '' @ statusText response))
              else Inr ()))"

definition getReviews :: "env \<Rightarrow> string \<Rightarrow> json call" where
  "getReviews env bookId =
     (let req = \<lparr>req_method = GET,
                 req_url = API_BASE_URL env @ ''/books/'' @ bookId @ ''/reviews'',
                 req_headers = [], req_body = None\<rparr>
      in ([Fetch req],
          case fetch env req of
            Inl e \<Rightarrow> Inl e
          | Inr response \<Rightarrow>
              if \<not> ok response then
                Inl (Error (''Failed to fetch reviews: '' @ show_nat (status response)
                            @ '' '' @ statusText response))
              else
                (case resp_json response of
                   Inl e \<Rightarrow> Inl e
                 | Inr data \<Rightarrow>
                     if data = JNull then Inl (NullRead ''body'')
                     else
                       (let direct = (if isArray data then Inr data else Inr (JArr []))
                        in case proxy_body data of
                             None \<Rightarrow> direct
                           | Some s \<Rightarrow>
                               (case JSON_parse env s of
                                  Inl e \<Rightarrow> Inl e
                                | Inr parsedBody \<Rightarrow>
                                    if isArray parsedBody then Inr parsedBody
                                    else direct)))))"

text \<open>Modelled from the spec: the \<^verbatim>\<open>Review\<close> type of \<^verbatim>\<open>@/types\<close> without its
  \<^verbatim>\<open>id\<close> and \<^verbatim>\<open>createdAt\<close>, the argument of \<^verbatim>\<open>createReview\<close>.\<close>

record review_draft =
  bookId :: string
  userId :: string
  userName :: string
  review_rating :: int
  comment :: string

definition review_json :: "review_draft \<Rightarrow> json" where
  "review_json r =
     JObj [(''bookId'', JStr (bookId r)), (''userId'', JStr (userId r)),
           (''userName'', JStr (userName r)), (''rating'', JNum (review_rating r)),
           (''comment'', JStr (comment r))]"

definition createReview :: "env \<Rightarrow> review_draft \<Rightarrow> json call" where
  "createReview env review =
     (let req = \<lparr>req_method = POST,
                 req_url = API_BASE_URL env @ ''/books/'' @ bookId review @ ''/reviews'',
                 req_headers = getAuthHeaders env, req_body = Some (review_json review)\<rparr>
      in ([Fetch req],
          case fetch env req of
            Inl e \<Rightarrow> Inl e
          | Inr response \<Rightarrow>
              if \<not> ok response then
                Inl (Error (''Failed to create review: '' @ show_nat (status response)
                            @ '' '' @ statusText response))
              else
                (case resp_json response of
                   Inl e \<Rightarrow> Inl e
                 | Inr data \<Rightarrow>
                     if data = JNull then Inl (NullRead ''body'')
                     else
                       (case proxy_body data of
                          None \<Rightarrow> Inr data
                        | Some s \<Rightarrow> JSON_parse env s))))"

section \<open>The pages that change a reading list\<close>

text \<open>Modelled from the spec: the \<^verbatim>\<open>ReadingList\<close> type of \<^verbatim>\<open>@/types\<close>; the description
  is optional.\<close>

record readingList =
  list_id :: string
  list_name :: string
  list_description :: "string option"
  bookIds :: "string list"
  list_createdAt :: string
  list_updatedAt :: string

text \<open>
  The object literal \<^verbatim>\<open>{name, description, bookIds}\<close> both pages hand to
  \<^verbatim>\<open>updateReadingList\<close>, as \<^verbatim>\<open>JSON.stringify\<close> serialises it: a description that is
  \<^verbatim>\<open>undefined\<close> is left out.
\<close>

definition list_update :: "string \<Rightarrow> string option \<Rightarrow> string list \<Rightarrow> json" where
  "list_update n d ids =
     JObj ([(''name'', JStr n)]
           @ (case d of None \<Rightarrow> [] | Some s \<Rightarrow> [(''description'', JStr s)])
           @ [(''bookIds'', JArr (map JStr ids))])"

text \<open>
  What a handler does, in order. Modelled from the spec: \<^verbatim>\<open>showSuccess\<close> and
  \<^verbatim>\<open>handleApiError\<close> of \<^verbatim>\<open>@/utils/errorHandling\<close> (not among the sources) show the
  user a notice, respectively report the error; each is recorded as the event of its
  call. The other events are the calls of the client and of the state setters.
\<close>

datatype ui =
    Io io
  | ShowSuccess string
  | HandleApiError error
  | SetIsAddingToList bool
  | SetIsModalOpen bool
  | SetReadingList "readingList option"
  | SetBooks "book list"
  | SetReadingLists "readingList list"
  | SetBook "book option"

text \<open>The state of \<^verbatim>\<open>BookDetail\<close> that \<^verbatim>\<open>handleSelectList\<close> reads or sets.\<close>

record bookDetail =
  book :: "book option"
  readingLists :: "readingList list"
  isModalOpen :: bool
  isAddingToList :: bool

definition dq :: string where
  "dq = [CHR 0x22]"

definition handleSelectList :: "env \<Rightarrow> bookDetail \<Rightarrow> string \<Rightarrow> ui list" where
  "handleSelectList env st listId =
     (case book st of
        None \<Rightarrow> []
      | Some b \<Rightarrow>
          [SetIsAddingToList True]
          @ (case find (\<lambda>l. list_id l = listId) (readingLists st) of
               None \<Rightarrow> [HandleApiError (Error ''Reading list not found'')]
             | Some l \<Rightarrow>
                 if book_id b \<in> set (bookIds l) then
                   [ShowSuccess ''Book is already in this reading list!'', SetIsModalOpen False]
                 else
                   (let updatedBookIds = bookIds l @ [book_id b];
                        (ios, res) = updateReadingList env listId
                                       (list_update (list_name l) (list_description l) updatedBookIds)
                    in map Io ios
                       @ (case res of
                            Inl e \<Rightarrow> [HandleApiError e]
                          | Inr r \<Rightarrow>
                              [ShowSuccess (''Added '' @ dq @ title b @ dq @ '' to '' @ dq
                                            @ list_name l @ dq @ ''!''),
                               SetIsModalOpen False])))
          @ [SetIsAddingToList False])"

text \<open>The state of \<^verbatim>\<open>ReadingListDetail\<close> that \<^verbatim>\<open>handleRemoveBook\<close> reads or sets.\<close>

record listDetail =
  readingList :: "readingList option"
  books :: "book list"

definition handleRemoveBook :: "env \<Rightarrow> listDetail \<Rightarrow> string \<Rightarrow> ui list" where
  "handleRemoveBook env st bookId' =
     (case readingList st of
        None \<Rightarrow> []
      | Some rl \<Rightarrow>
          (let updatedBookIds = filter (\<lambda>i. i \<noteq> bookId') (bookIds rl);
               (ios, res) = updateReadingList env (list_id rl)
                              (list_update (list_name rl) (list_description rl) updatedBookIds)
           in map Io ios
              @ (case res of
                   Inl e \<Rightarrow> [HandleApiError e]
                 | Inr r \<Rightarrow>
                     [SetReadingList (Some (rl\<lparr>bookIds := updatedBookIds\<rparr>)),
                      SetBooks (filter (\<lambda>b. book_id b \<noteq> bookId') (books st)),
                      ShowSuccess ''Book removed from list!''])))"

text \<open>The state each page is in once the setters a handler called have taken effect.\<close>

fun set_bookDetail :: "bookDetail \<Rightarrow> ui \<Rightarrow> bookDetail" where
  "set_bookDetail st (SetIsAddingToList v) = st\<lparr>isAddingToList := v\<rparr>"
| "set_bookDetail st (SetIsModalOpen v) = st\<lparr>isModalOpen := v\<rparr>"
| "set_bookDetail st (SetReadingLists v) = st\<lparr>readingLists := v\<rparr>"
| "set_bookDetail st (SetBook v) = st\<lparr>book := v\<rparr>"
| "set_bookDetail st e = st"

fun set_listDetail :: "listDetail \<Rightarrow> ui \<Rightarrow> listDetail" where
  "set_listDetail st (SetReadingList v) = st\<lparr>readingList := v\<rparr>"
| "set_listDetail st (SetBooks v) = st\<lparr>books := v\<rparr>"
| "set_listDetail st e = st"

text \<open>The requests among a handler's events, and whether an event sets a reading list
  or the books held by a page.\<close>

fun requests :: "ui list \<Rightarrow> request list" where
  "requests [] = []"
| "requests (Io (Fetch r) # es) = r # requests es"
| "requests (e # es) = requests es"

fun is_setter :: "ui \<Rightarrow> bool" where
  "is_setter (SetReadingList v) = True"
| "is_setter (SetBooks v) = True"
| "is_setter (SetReadingLists v) = True"
| "is_setter (SetBook v) = True"
| "is_setter e = False"

section \<open>The authentication context\<close>

text \<open>
  The identity provider (\<^verbatim>\<open>aws-amplify/auth\<close>) as the replies it gives during one call of
  the context, \<open>Inl\<close> when the promise rejects; \<open>now\<close> is \<^verbatim>\<open>new Date().toISOString()\<close>
  and \<open>toLowerCase\<close> the language's lower-casing.
\<close>

record cognito_user =
  cognito_userId :: string
  username :: string

record attributes =
  attr_email :: "string option"
  attr_name :: "string option"

record provider =
  signIn :: "string \<Rightarrow> string \<Rightarrow> error + bool"
  signUp :: "string \<Rightarrow> string \<Rightarrow> string \<Rightarrow> error + unit"
  signOut :: "error + unit"
  confirmSignUp :: "string \<Rightarrow> string \<Rightarrow> error + unit"
  getCurrentUser :: "error + cognito_user"
  fetchUserAttributes :: "error + attributes"
  now :: string
  toLowerCase :: "string \<Rightarrow> string"

datatype role = RoleAdmin | RoleUser

text \<open>Modelled from the spec: the \<^verbatim>\<open>User\<close> type of \<^verbatim>\<open>@/types\<close>.\<close>

record app_user =
  user_id :: string
  user_email :: string
  user_name :: string
  user_role :: role
  user_createdAt :: string

definition ADMIN_EMAILS :: "string list" where
  "ADMIN_EMAILS = [''furkantahasaranda@gmail.com'']"

definition getUserRole :: "provider \<Rightarrow> string \<Rightarrow> role" where
  "getUserRole p email =
     (if toLowerCase p email \<in> set ADMIN_EMAILS then RoleAdmin else RoleUser)"

text \<open>\<^verbatim>\<open>a || b\<close> for an optional string \<open>a\<close>: a missing and an empty string are falsy.\<close>

definition or_else :: "string option \<Rightarrow> string \<Rightarrow> string" where
  "or_else a b = (case a of None \<Rightarrow> b | Some s \<Rightarrow> if s = [] then b else s)"

text \<open>The setters a function of the context calls, in order.\<close>

datatype auth_event = SetIsLoading bool | SetUser "app_user option"

record auth_state =
  user :: "app_user option"
  isLoading :: bool

fun set_auth :: "auth_state \<Rightarrow> auth_event \<Rightarrow> auth_state" where
  "set_auth st (SetIsLoading v) = st\<lparr>isLoading := v\<rparr>"
| "set_auth st (SetUser u) = st\<lparr>user := u\<rparr>"

text \<open>
  Each of the four functions is \<^verbatim>\<open>setIsLoading(true); try { ... } catch (error) {
  console.error(...); throw error; } finally { setIsLoading(false); }\<close>: the events of the
  \<^verbatim>\<open>try\<close> block run between the two settings of the flag, and the error caught is the
  error thrown again. Console output is not part of the model.
\<close>

definition login :: "provider \<Rightarrow> string \<Rightarrow> string \<Rightarrow> auth_event list \<times> (error + unit)" where
  "login p email password =
     (let (evs, res) =
            (case signIn p email password of
               Inl e \<Rightarrow> ([], Inl e)
             | Inr isSignedIn \<Rightarrow>
                 if isSignedIn then
                   (case getCurrentUser p of
                      Inl e \<Rightarrow> ([], Inl e)
                    | Inr u \<Rightarrow>
                        (case fetchUserAttributes p of
                           Inl e \<Rightarrow> ([], Inl e)
                         | Inr attrs \<Rightarrow>
                             (let userEmail = or_else (attr_email attrs) email
                              in ([SetUser (Some \<lparr>user_id = cognito_userId u,
                                                   user_email = userEmail,
                                                   user_name = or_else (attr_name attrs) (username u),
                                                   user_role = getUserRole p userEmail,
                                                   user_createdAt = now p\<rparr>)],
                                  Inr ()))))
                 else ([], Inr ()))
      in ([SetIsLoading True] @ evs @ [SetIsLoading False], res))"

definition logout :: "provider \<Rightarrow> auth_event list \<times> (error + unit)" where
  "logout p =
     (let (evs, res) =
            (case signOut p of
               Inl e \<Rightarrow> ([], Inl e)
             | Inr u \<Rightarrow> ([SetUser None], Inr ()))
      in ([SetIsLoading True] @ evs @ [SetIsLoading False], res))"

definition signup :: "provider \<Rightarrow> string \<Rightarrow> string \<Rightarrow> string \<Rightarrow> auth_event list \<times> (error + unit)" where
  "signup p email password name =
     (let (evs, res) =
            (case signUp p email password name of
               Inl e \<Rightarrow> ([], Inl e)
             | Inr u \<Rightarrow> ([], Inr ()))
      in ([SetIsLoading True] @ evs @ [SetIsLoading False], res))"

definition confirmSignup :: "provider \<Rightarrow> string \<Rightarrow> string \<Rightarrow> auth_event list \<times> (error + unit)" where
  "confirmSignup p email code =
     (let (evs, res) =
            (case confirmSignUp p email code of
               Inl e \<Rightarrow> ([], Inl e)
             | Inr u \<Rightarrow> ([], Inr ()))
      in ([SetIsLoading True] @ evs @ [SetIsLoading False], res))"

section \<open>Servers and concrete worlds\<close>

text \<open>The same world with a server that answers every request with the response \<open>r\<close>.\<close>

definition replies :: "env \<Rightarrow> response \<Rightarrow> env" where
  "replies env r = env\<lparr>fetch := (\<lambda>req. Inr r)\<rparr>"

definition reply :: "nat \<Rightarrow> string \<Rightarrow> json \<Rightarrow> response" where
  "reply c t v = \<lparr>status = c, statusText = t, resp_json = Inr v\<rparr>"

text \<open>A decoder that knows a handful of JSON texts, enough for the examples below.\<close>

definition decode0 :: "string \<Rightarrow> error + json" where
  "decode0 s =
     (case map_of
        [(''{}'', JObj []),
         (''[]'', JArr []),
         (''null'', JNull),
         (''{'' @ dq @ ''books'' @ dq @ '':null}'', JObj [(''books'', JNull)]),
         (''{'' @ dq @ ''books'' @ dq @ '':[]}'', JObj [(''books'', JArr [])]),
         (''{'' @ dq @ ''message'' @ dq @ '':'' @ dq @ ''denied'' @ dq @ ''}'',
          JObj [(''message'', JStr ''denied'')])] s of
        None \<Rightarrow> Inl (Raised ''SyntaxError'')
      | Some v \<Rightarrow> Inr v)"

definition book_a :: book where
  "book_a = \<lparr>book_id = ''a'', title = ''Emma'', author = ''Jane Austen'',
             book_description = ''A novel'', genre = ''Fiction'', publishedYear = 1815,
             isbn = ''9780141439587'', coverImage = ''/covers/emma.jpg'', rating = 4\<rparr>"

definition book_b :: book where
  "book_b = \<lparr>book_id = ''b'', title = ''Dune'', author = ''Frank Herbert'',
             book_description = ''A novel'', genre = ''Science Fiction'', publishedYear = 1965,
             isbn = ''9780441172719'', coverImage = ''/covers/dune.jpg'', rating = 5\<rparr>"

definition env0 :: env where
  "env0 = \<lparr>API_BASE_URL = ''https://api.example'',
           fetchAuthSession = Inr (Some ''token''),
           fetch = (\<lambda>req. Inl (Raised ''NetworkError'')),
           JSON_parse = decode0,
           coerce = (\<lambda>v. Inr ''[object Object]''),
           mockBooks = [book_a, book_b]\<rparr>"

definition list0 :: readingList where
  "list0 = \<lparr>list_id = ''l1'', list_name = ''Summer'', list_description = None,
            bookIds = [''a'', ''b''], list_createdAt = ''2024-01-01'',
            list_updatedAt = ''2024-01-02''\<rparr>"

definition provider0 :: provider where
  "provider0 =
     \<lparr>signIn = (\<lambda>email password.
                  if password = ''secret'' then Inr True else Inl (Raised ''NotAuthorizedException'')),
      signUp = (\<lambda>email password name. Inl (Raised ''UsernameExistsException'')),
      signOut = Inl (Raised ''NetworkError''),
      confirmSignUp = (\<lambda>email code. Inl (Raised ''CodeMismatchException'')),
      getCurrentUser = Inr \<lparr>cognito_userId = ''u1'', username = ''ann''\<rparr>,
      fetchUserAttributes = Inl (Raised ''NetworkError''),
      now = ''2024-01-01T00:00:00.000Z'',
      toLowerCase = (\<lambda>s. s)\<rparr>"

definition list1 :: readingList where
  "list1 = \<lparr>list_id = ''l2'', list_name = ''Winter'', list_description = Some ''For the cold'',
            bookIds = [''a''], list_createdAt = ''2024-02-01'',
            list_updatedAt = ''2024-02-02''\<rparr>"

definition page0 :: bookDetail where
  "page0 = \<lparr>book = Some book_b, readingLists = [list0, list1], isModalOpen = True,
            isAddingToList = False\<rparr>"

definition detail0 :: listDetail where
  "detail0 = \<lparr>readingList = Some list0, books = [book_a, book_b]\<rparr>"

section \<open>Facts about servers and envelopes\<close>

lemma replies_simps:
  "fetch (replies env r) req = Inr r"
  "JSON_parse (replies env r) = JSON_parse env"
  "API_BASE_URL (replies env r) = API_BASE_URL env"
  "coerce (replies env r) = coerce env"
  "mockBooks (replies env r) = mockBooks env"
  "getAuthHeaders (replies env r) = getAuthHeaders env"
  by (simp_all add: replies_def getAuthHeaders_def)

lemma js_String_replies: "js_String (replies env r) v = js_String env v"
  by (simp add: js_String_def replies_simps split: json.splits)

lemma js_String_JStr: "js_String env (JStr m) = Inr m"
  by (simp add: js_String_def)

lemma proxy_body_not_null: "proxy_body d = Some s \<Longrightarrow> d \<noteq> JNull"
  by (auto simp: proxy_body_def)

lemma proxy_body_not_array: "proxy_body d = Some s \<Longrightarrow> \<not> isArray d"
  by (cases d) (auto simp: proxy_body_def)

lemma isArray_proxy_body: "isArray d \<Longrightarrow> proxy_body d = None"
  by (cases d) (auto simp: proxy_body_def)

lemma isArray_not_null: "isArray d \<Longrightarrow> d \<noteq> JNull"
  by auto

lemma truthy_field_not_null: "truthy_field d k = Some v \<Longrightarrow> d \<noteq> JNull"
  by (auto simp: truthy_field_def)

lemma array_field_not_null: "array_field d k = Some v \<Longrightarrow> d \<noteq> JNull"
  by (auto simp: array_field_def truthy_field_def)

lemma proxy_body_truthy_field:
  "proxy_body d = Some s \<Longrightarrow> truthy_field d ''body'' = Some (JStr s)"
  by (auto simp: proxy_body_def truthy_field_def split: option.splits json.splits if_splits)

lemma convert_books_none: "truthy_field p ''books'' = None \<Longrightarrow> convert_books p = p"
  by (simp add: convert_books_def)

lemma convert_books_keep:
  "truthy_field p ''bookIds'' = Some v \<Longrightarrow> convert_books p = p"
  by (simp add: convert_books_def split: option.splits)

lemma convert_books_rename:
  "truthy_field p ''books'' = Some b \<Longrightarrow> truthy_field p ''bookIds'' = None \<Longrightarrow>
   convert_books p = js_delete (js_set p ''bookIds'' b) ''books''"
  by (simp add: convert_books_def)

lemma renamed_fields:
  assumes "truthy_field p ''books'' = Some b"
  shows "js_get (js_delete (js_set p ''bookIds'' b) ''books'') ''bookIds'' = Some b"
    and "js_get (js_delete (js_set p ''bookIds'' b) ''books'') ''books'' = None"
    and "truthy_field (js_delete (js_set p ''bookIds'' b) ''books'') ''bookIds'' = Some b"
  using assms
  by (cases p; simp add: truthy_field_def delete_conv update_conv split: option.splits if_splits)+

section \<open>Mock data and live calls\<close>

text \<open>
  Claim C8, as amended. \<^verbatim>\<open>getBook\<close> makes no request: it starts the 300 ms timer and
  resolves to the first book of the mock table with the id asked for, or to null when
  the mock table has none. The catalog listing \<^verbatim>\<open>getBooks\<close> is a live call: it issues one
  \<^verbatim>\<open>GET /books\<close>, returns the array a 2xx reply carries, directly or inside the envelope,
  and raises what the transport raises.
\<close>

theorem getBook_mock_getBooks_live:
  fixes env :: env and req :: request
  defines "req \<equiv> \<lparr>req_method = GET, req_url = API_BASE_URL env @ ''/books'',
                     req_headers = [], req_body = None\<rparr>"
  shows "getBook env i = ([Timer 300], Inr (find (\<lambda>b. book_id b = i) (mockBooks env)))
   \<and> (snd (getBook env i) = Inr None \<longleftrightarrow> (\<forall>b \<in> set (mockBooks env). book_id b \<noteq> i))
   \<and> (\<forall>b. snd (getBook env i) = Inr (Some b) \<longleftrightarrow>
          (\<exists>k < length (mockBooks env).
             mockBooks env ! k = b \<and> book_id b = i
             \<and> (\<forall>j < k. book_id (mockBooks env ! j) \<noteq> i)))
   \<and> fst (getBooks env) = [Fetch req]
   \<and> (\<forall>r xs. fetch env req = Inr r \<and> ok r \<and> resp_json r = Inr (JArr xs) \<longrightarrow>
         snd (getBooks env) = Inr (JArr xs))
   \<and> (\<forall>r data s xs. fetch env req = Inr r \<and> ok r \<and> resp_json r = Inr data
         \<and> proxy_body data = Some s \<and> JSON_parse env s = Inr (JArr xs) \<longrightarrow>
         snd (getBooks env) = Inr (JArr xs))
   \<and> (\<forall>e. fetch env req = Inl e \<longrightarrow> snd (getBooks env) = Inl e)"
proof -
  have 1: "getBook env i = ([Timer 300], Inr (find (\<lambda>b. book_id b = i) (mockBooks env)))"
    by (simp add: getBook_def)
  have 2: "snd (getBook env i) = Inr None \<longleftrightarrow> (\<forall>b \<in> set (mockBooks env). book_id b \<noteq> i)"
    by (auto simp add: getBook_def find_None_iff)
  have 3: "\<forall>b. snd (getBook env i) = Inr (Some b) \<longleftrightarrow>
      (\<exists>k < length (mockBooks env).
         mockBooks env ! k = b \<and> book_id b = i
         \<and> (\<forall>j < k. book_id (mockBooks env ! j) \<noteq> i))"
    by (auto simp add: getBook_def find_Some_iff)
  have 4: "fst (getBooks env) = [Fetch req]"
    by (simp add: getBooks_def Let_def req_def)
  have 5: "\<forall>r xs. fetch env req = Inr r \<and> ok r \<and> resp_json r = Inr (JArr xs) \<longrightarrow>
      snd (getBooks env) = Inr (JArr xs)"
    by (simp add: getBooks_def Let_def req_def proxy_body_def)
  have 6: "\<forall>r data s xs. fetch env req = Inr r \<and> ok r \<and> resp_json r = Inr data
      \<and> proxy_body data = Some s \<and> JSON_parse env s = Inr (JArr xs) \<longrightarrow>
      snd (getBooks env) = Inr (JArr xs)"
    by (auto simp add: getBooks_def Let_def req_def dest: proxy_body_not_null)
  have 7: "\<forall>e. fetch env req = Inl e \<longrightarrow> snd (getBooks env) = Inl e"
    by (simp add: getBooks_def Let_def req_def)
  from 1 2 3 4 5 6 7 show ?thesis
    by blast
qed

text \<open>The mock table of \<open>env0\<close> has book \<open>b\<close> at its second place, and a server that sends
  an envelope around the empty array is what the catalog listing returns.\<close>

theorem getBook_mock_getBooks_live_witness:
  "snd (getBook env0 ''b'') = Inr (Some book_b)
   \<and> mockBooks env0 ! 1 = book_b \<and> book_id (mockBooks env0 ! 0) \<noteq> ''b''
   \<and> ok (reply 200 ''OK'' (JObj [(''body'', JStr ''[]'')]))
   \<and> snd (getBooks (replies env0 (reply 200 ''OK'' (JObj [(''body'', JStr ''[]'')]))))
       = Inr (JArr [])
   \<and> snd (getBooks (replies env0 (reply 200 ''OK'' (JArr [JStr ''x''])))) = Inr (JArr [JStr ''x''])"
proof -
  let ?w = "reply 200 ''OK'' (JObj [(''body'', JStr ''[]'')])"
  let ?d = "reply 200 ''OK'' (JArr [JStr ''x''])"
  have a: "mockBooks env0 ! 1 = book_b" "book_id (mockBooks env0 ! 0) \<noteq> ''b''"
    by (simp_all add: env0_def book_a_def book_b_def)
  have "(1::nat) < length (mockBooks env0) \<and> mockBooks env0 ! 1 = book_b
      \<and> book_id book_b = ''b'' \<and> (\<forall>j < (1::nat). book_id (mockBooks env0 ! j) \<noteq> ''b'')"
    by (simp add: env0_def book_a_def book_b_def)
  then have ex: "\<exists>k < length (mockBooks env0). mockBooks env0 ! k = book_b
      \<and> book_id book_b = ''b'' \<and> (\<forall>j < k. book_id (mockBooks env0 ! j) \<noteq> ''b'')"
    by (rule exI [of _ 1])
  note first = getBook_mock_getBooks_live
    [of env0 "''b''", THEN conjunct2, THEN conjunct2, THEN conjunct1, rule_format]
  have A: "snd (getBook env0 ''b'') = Inr (Some book_b)"
    by (rule iffD2 [OF first ex])
  have b: "fetch (replies env0 ?w) req = Inr ?w \<and> ok ?w
      \<and> resp_json ?w = Inr (JObj [(''body'', JStr ''[]'')])
      \<and> proxy_body (JObj [(''body'', JStr ''[]'')]) = Some ''[]''
      \<and> JSON_parse (replies env0 ?w) ''[]'' = Inr (JArr [])" for req
    by (simp add: replies_simps ok_def reply_def proxy_body_def env0_def decode0_def)
  note wrapped = getBook_mock_getBooks_live
    [of "replies env0 ?w", THEN conjunct2, THEN conjunct2, THEN conjunct2, THEN conjunct2,
     THEN conjunct2, THEN conjunct1, rule_format]
  have B: "snd (getBooks (replies env0 ?w)) = Inr (JArr [])"
    by (rule wrapped [OF b])
  have c: "fetch (replies env0 ?d) req = Inr ?d \<and> ok ?d
      \<and> resp_json ?d = Inr (JArr [JStr ''x''])" for req
    by (simp add: replies_simps ok_def reply_def)
  note direct = getBook_mock_getBooks_live
    [of "replies env0 ?d", THEN conjunct2, THEN conjunct2, THEN conjunct2, THEN conjunct2,
     THEN conjunct1, rule_format]
  have C: "snd (getBooks (replies env0 ?d)) = Inr (JArr [JStr ''x''])"
    by (rule direct [OF c])
  have d: "ok ?w"
    by (simp add: ok_def reply_def)
  show ?thesis
    by (intro conjI) (rule A a d B C)+
qed

text \<open>
  Claim C8 as stated fails for the catalog listing: in a world whose mock table holds two
  books, \<^verbatim>\<open>getBooks\<close> sends a request and returns the server's empty array.
\<close>

theorem getBooks_live_counterexample:
  "fst (getBooks (replies env0 (reply 200 ''OK'' (JArr [])))) =
     [Fetch \<lparr>req_method = GET, req_url = ''https://api.example/books'',
             req_headers = [], req_body = None\<rparr>]
   \<and> snd (getBooks (replies env0 (reply 200 ''OK'' (JArr [])))) = Inr (JArr [])
   \<and> mockBooks (replies env0 (reply 200 ''OK'' (JArr []))) = [book_a, book_b]"
  by (simp add: getBooks_def Let_def replies_def env0_def reply_def ok_def proxy_body_def)

section \<open>Unwrapping the proxy envelope\<close>

text \<open>
  Each endpoint, for a 2xx reply that is an envelope around \<open>p\<close>, against the same reply
  carrying \<open>p\<close> itself. \<open>p\<close> is not null and is not an envelope in turn.
\<close>

lemma unwrap_plain:
  assumes "ok r" "proxy_body data = Some s" "JSON_parse env s = Inr p"
    "p \<noteq> JNull" "proxy_body p = None"
  shows "createBook (replies env (r\<lparr>resp_json := Inr data\<rparr>)) bk
           = createBook (replies env (r\<lparr>resp_json := Inr p\<rparr>)) bk"
    and "updateBook (replies env (r\<lparr>resp_json := Inr data\<rparr>)) i bk
           = updateBook (replies env (r\<lparr>resp_json := Inr p\<rparr>)) i bk"
    and "createReview (replies env (r\<lparr>resp_json := Inr data\<rparr>)) rv
           = createReview (replies env (r\<lparr>resp_json := Inr p\<rparr>)) rv"
  using assms proxy_body_not_null [of data s]
  by (simp_all add: createBook_def updateBook_def createReview_def Let_def replies_simps ok_def)

lemma unwrap_lists:
  assumes "ok r" "proxy_body data = Some s" "JSON_parse env s = Inr p"
    "p \<noteq> JNull" "proxy_body p = None"
  shows "getBooks (replies env (r\<lparr>resp_json := Inr data\<rparr>))
           = getBooks (replies env (r\<lparr>resp_json := Inr p\<rparr>))"
    and "getReviews (replies env (r\<lparr>resp_json := Inr data\<rparr>)) b
           = getReviews (replies env (r\<lparr>resp_json := Inr p\<rparr>)) b"
  using assms proxy_body_not_null [of data s] proxy_body_not_array [of data s]
  by (simp_all add: getBooks_def getReviews_def Let_def replies_simps ok_def)

lemma unwrap_recommendations:
  assumes "ok r" "proxy_body data = Some s" "JSON_parse env s = Inr p"
    "p \<noteq> JNull" "proxy_body p = None" "array_field data ''recommendations'' = None"
  shows "getRecommendations (replies env (r\<lparr>resp_json := Inr data\<rparr>)) q
           = getRecommendations (replies env (r\<lparr>resp_json := Inr p\<rparr>)) q"
  using assms proxy_body_not_null [of data s] proxy_body_not_array [of data s]
  by (simp add: getRecommendations_def Let_def replies_simps ok_def split: option.splits)

lemma unwrap_getReadingLists:
  assumes "ok r" "proxy_body data = Some s" "JSON_parse env s = Inr p"
    "p \<noteq> JNull" "proxy_body p = None"
  shows "isArray p \<Longrightarrow> getReadingLists (replies env (r\<lparr>resp_json := Inr data\<rparr>))
           = getReadingLists (replies env (r\<lparr>resp_json := Inr p\<rparr>))"
    and "\<not> isArray p \<Longrightarrow>
         snd (getReadingLists (replies env (r\<lparr>resp_json := Inr data\<rparr>)))
           = Inl (Error ''API response body is not an array'')
         \<and> snd (getReadingLists (replies env (r\<lparr>resp_json := Inr p\<rparr>)))
           = Inl (Error ''Unexpected API response format'')"
  using assms proxy_body_not_null [of data s]
  by (simp_all add: getReadingLists_def Let_def replies_simps ok_def)

lemma wrapped_createReadingList:
  assumes "ok r" "proxy_body data = Some s" "JSON_parse env s = Inr p" "p \<noteq> JNull"
  shows "snd (createReadingList (replies env (r\<lparr>resp_json := Inr data\<rparr>)) l)
           = Inr (convert_books p)"
  using assms proxy_body_not_null [of data s]
  by (simp add: createReadingList_def Let_def replies_simps ok_def)

lemma wrapped_updateReadingList:
  assumes "ok r" "proxy_body data = Some s" "JSON_parse env s = Inr p" "p \<noteq> JNull"
  shows "snd (updateReadingList (replies env (r\<lparr>resp_json := Inr data\<rparr>)) i l)
           = Inr (convert_books p)"
  using assms proxy_body_not_null [of data s]
  by (simp add: updateReadingList_def Let_def replies_simps ok_def)

lemma direct_createReadingList:
  assumes "ok r" "p \<noteq> JNull" "proxy_body p = None"
  shows "snd (createReadingList (replies env (r\<lparr>resp_json := Inr p\<rparr>)) l)
           = (if truthy_field p ''bookIds'' = None \<and> truthy_field p ''books'' = None
              then Inl (Error ''Unexpected API response format'')
              else Inr (convert_books p))"
  using assms
  by (simp add: createReadingList_def Let_def replies_simps ok_def)

lemma direct_updateReadingList:
  assumes "ok r" "p \<noteq> JNull" "proxy_body p = None"
  shows "snd (updateReadingList (replies env (r\<lparr>resp_json := Inr p\<rparr>)) i l)
           = (if truthy_field p ''bookIds'' = None \<and> truthy_field p ''books'' = None
              then Inl (Error ''Unexpected API response format'')
              else Inr (convert_books p))"
  using assms
  by (simp add: updateReadingList_def Let_def replies_simps ok_def)

lemma fst_createReadingList:
  "fst (createReadingList (replies env r) l) = fst (createReadingList (replies env r') l)"
  by (simp add: createReadingList_def Let_def replies_simps)

lemma fst_updateReadingList:
  "fst (updateReadingList (replies env r) i l) = fst (updateReadingList (replies env r') i l)"
  by (simp add: updateReadingList_def Let_def replies_simps)

text \<open>
  Claim C1, as amended. Take a 2xx reply whose decoded JSON carries a non-empty string
  \<^verbatim>\<open>body\<close> that decodes to \<open>p\<close>, where \<open>p\<close> is not null and carries no non-empty string
  \<^verbatim>\<open>body\<close> of its own, and compare it with the same reply carrying \<open>p\<close> directly.
  \<^verbatim>\<open>getBooks\<close>, \<^verbatim>\<open>getReviews\<close>, \<^verbatim>\<open>createBook\<close>, \<^verbatim>\<open>updateBook\<close> and \<^verbatim>\<open>createReview\<close> give
  the same result for both. So does \<^verbatim>\<open>getRecommendations\<close> when the envelope has no
  \<^verbatim>\<open>recommendations\<close> array beside its \<^verbatim>\<open>body\<close>, \<^verbatim>\<open>getReadingLists\<close> when \<open>p\<close> is an
  array, and \<^verbatim>\<open>createReadingList\<close> and \<^verbatim>\<open>updateReadingList\<close> when \<open>p\<close> has a truthy
  \<^verbatim>\<open>bookIds\<close> or \<^verbatim>\<open>books\<close>. For any other \<open>p\<close> the two differ: \<^verbatim>\<open>getReadingLists\<close>
  raises a different message for each, and \<^verbatim>\<open>createReadingList\<close> and
  \<^verbatim>\<open>updateReadingList\<close> return the wrapped \<open>p\<close> but raise on the direct one.
\<close>

theorem unwrap_transparent:
  fixes env :: env and r :: response and data p :: json and W D :: env
  defines "W \<equiv> replies env (r\<lparr>resp_json := Inr data\<rparr>)"
    and "D \<equiv> replies env (r\<lparr>resp_json := Inr p\<rparr>)"
  assumes a: "ok r" "proxy_body data = Some s" "JSON_parse env s = Inr p"
    "p \<noteq> JNull" "proxy_body p = None"
  shows "getBooks W = getBooks D
    \<and> getReviews W b = getReviews D b
    \<and> createBook W bk = createBook D bk
    \<and> updateBook W i bk = updateBook D i bk
    \<and> createReview W rv = createReview D rv
    \<and> (array_field data ''recommendations'' = None \<longrightarrow>
         getRecommendations W q = getRecommendations D q)
    \<and> (isArray p \<longrightarrow> getReadingLists W = getReadingLists D)
    \<and> (\<not> isArray p \<longrightarrow>
         snd (getReadingLists W) = Inl (Error ''API response body is not an array'')
         \<and> snd (getReadingLists D) = Inl (Error ''Unexpected API response format''))
    \<and> (truthy_field p ''bookIds'' \<noteq> None \<or> truthy_field p ''books'' \<noteq> None \<longrightarrow>
         createReadingList W l = createReadingList D l
         \<and> updateReadingList W i l = updateReadingList D i l)
    \<and> (truthy_field p ''bookIds'' = None \<and> truthy_field p ''books'' = None \<longrightarrow>
         snd (createReadingList W l) = Inr p
         \<and> snd (createReadingList D l) = Inl (Error ''Unexpected API response format'')
         \<and> snd (updateReadingList W i l) = Inr p
         \<and> snd (updateReadingList D i l) = Inl (Error ''Unexpected API response format''))"
proof -
  have lists: "getBooks W = getBooks D" "getReviews W b = getReviews D b"
    unfolding W_def D_def by (rule unwrap_lists [OF a])+
  have plain: "createBook W bk = createBook D bk" "updateBook W i bk = updateBook D i bk"
    "createReview W rv = createReview D rv"
    unfolding W_def D_def by (rule unwrap_plain [OF a])+
  have recs: "array_field data ''recommendations'' = None \<longrightarrow>
      getRecommendations W q = getRecommendations D q"
    unfolding W_def D_def using unwrap_recommendations [OF a] by blast
  have rl: "isArray p \<longrightarrow> getReadingLists W = getReadingLists D"
    "\<not> isArray p \<longrightarrow>
       snd (getReadingLists W) = Inl (Error ''API response body is not an array'')
       \<and> snd (getReadingLists D) = Inl (Error ''Unexpected API response format'')"
    unfolding W_def D_def using unwrap_getReadingLists [OF a] by blast+
  have wc: "snd (createReadingList W l) = Inr (convert_books p)"
    unfolding W_def by (rule wrapped_createReadingList [OF a(1-4)])
  have wu: "snd (updateReadingList W i l) = Inr (convert_books p)"
    unfolding W_def by (rule wrapped_updateReadingList [OF a(1-4)])
  have dc: "snd (createReadingList D l)
      = (if truthy_field p ''bookIds'' = None \<and> truthy_field p ''books'' = None
         then Inl (Error ''Unexpected API response format'') else Inr (convert_books p))"
    unfolding D_def by (rule direct_createReadingList [OF a(1) a(4) a(5)])
  have du: "snd (updateReadingList D i l)
      = (if truthy_field p ''bookIds'' = None \<and> truthy_field p ''books'' = None
         then Inl (Error ''Unexpected API response format'') else Inr (convert_books p))"
    unfolding D_def by (rule direct_updateReadingList [OF a(1) a(4) a(5)])
  have fc: "fst (createReadingList W l) = fst (createReadingList D l)"
    unfolding W_def D_def by (rule fst_createReadingList)
  have fu: "fst (updateReadingList W i l) = fst (updateReadingList D i l)"
    unfolding W_def D_def by (rule fst_updateReadingList)
  have same: "truthy_field p ''bookIds'' \<noteq> None \<or> truthy_field p ''books'' \<noteq> None \<longrightarrow>
      createReadingList W l = createReadingList D l
      \<and> updateReadingList W i l = updateReadingList D i l"
    using wc wu dc du fc fu by (auto simp: prod_eq_iff)
  have differ: "truthy_field p ''bookIds'' = None \<and> truthy_field p ''books'' = None \<longrightarrow>
      snd (createReadingList W l) = Inr p
      \<and> snd (createReadingList D l) = Inl (Error ''Unexpected API response format'')
      \<and> snd (updateReadingList W i l) = Inr p
      \<and> snd (updateReadingList D i l) = Inl (Error ''Unexpected API response format'')"
    using wc wu dc du by (simp add: convert_books_none)
  from lists plain recs rl same differ show ?thesis by blast
qed

text \<open>An envelope around the record \<^verbatim>\<open>{"books":[]}\<close> and an envelope around the empty
  array: the wrapped and the direct reply give the same result.\<close>

theorem unwrap_transparent_witness:
  "ok (reply 200 ''OK'' JNull)
   \<and> createReadingList
       (replies env0 (reply 200 ''OK'' (JObj [(''body'', JStr (''{'' @ dq @ ''books'' @ dq @ '':[]}''))])))
       (JObj [])
     = createReadingList (replies env0 (reply 200 ''OK'' (JObj [(''books'', JArr [])]))) (JObj [])
   \<and> snd (createReadingList (replies env0 (reply 200 ''OK'' (JObj [(''books'', JArr [])]))) (JObj []))
     = Inr (JObj [(''bookIds'', JArr [])])
   \<and> getReadingLists (replies env0 (reply 200 ''OK'' (JObj [(''body'', JStr ''[]'')])))
     = getReadingLists (replies env0 (reply 200 ''OK'' (JArr [])))
   \<and> snd (getReadingLists (replies env0 (reply 200 ''OK'' (JArr [])))) = Inr (JArr [])"
proof -
  let ?s = "''{'' @ dq @ ''books'' @ dq @ '':[]}''"
  let ?p = "JObj [(''books'', JArr [])]"
  let ?data = "JObj [(''body'', JStr ?s)]"
  let ?r = "reply 200 ''OK'' JNull"
  have 1: "ok ?r"
    by (simp add: ok_def reply_def)
  have 2: "proxy_body ?data = Some ?s"
    by (simp add: proxy_body_def dq_def)
  have 3: "JSON_parse env0 ?s = Inr ?p"
    by (simp add: env0_def decode0_def dq_def)
  have 4: "?p \<noteq> JNull" "proxy_body ?p = None"
    by (simp_all add: proxy_body_def)
  have 5: "truthy_field ?p ''bookIds'' \<noteq> None \<or> truthy_field ?p ''books'' \<noteq> None"
    by (simp add: truthy_field_def)
  have 6: "?r\<lparr>resp_json := Inr v\<rparr> = reply 200 ''OK'' v" for v
    by (simp add: reply_def)
  from unwrap_transparent [OF 1 2 3 4] 5
  have "createReadingList (replies env0 (?r\<lparr>resp_json := Inr ?data\<rparr>)) (JObj [])
      = createReadingList (replies env0 (?r\<lparr>resp_json := Inr ?p\<rparr>)) (JObj [])"
    by blast
  then have A: "createReadingList (replies env0 (reply 200 ''OK'' ?data)) (JObj [])
      = createReadingList (replies env0 (reply 200 ''OK'' ?p)) (JObj [])"
    by (simp only: 6)
  have B: "snd (createReadingList (replies env0 (reply 200 ''OK'' ?p)) (JObj []))
      = Inr (JObj [(''bookIds'', JArr [])])"
    by (simp add: createReadingList_def Let_def replies_simps ok_def reply_def
        proxy_body_def truthy_field_def convert_books_def)
  have 7: "proxy_body (JObj [(''body'', JStr ''[]'')]) = Some ''[]''"
    by (simp add: proxy_body_def)
  have 8: "JSON_parse env0 ''[]'' = Inr (JArr [])"
    by (simp add: env0_def decode0_def dq_def)
  have 9: "JArr [] \<noteq> JNull" "proxy_body (JArr []) = None" "isArray (JArr [])"
    by (simp_all add: proxy_body_def)
  from unwrap_transparent [OF 1 7 8 9(1,2)] 9(3)
  have "getReadingLists (replies env0 (?r\<lparr>resp_json := Inr (JObj [(''body'', JStr ''[]'')])\<rparr>))
      = getReadingLists (replies env0 (?r\<lparr>resp_json := Inr (JArr [])\<rparr>))"
    by blast
  then have C: "getReadingLists (replies env0 (reply 200 ''OK'' (JObj [(''body'', JStr ''[]'')])))
      = getReadingLists (replies env0 (reply 200 ''OK'' (JArr [])))"
    by (simp only: 6)
  have E: "snd (getReadingLists (replies env0 (reply 200 ''OK'' (JArr [])))) = Inr (JArr [])"
    by (simp add: getReadingLists_def Let_def replies_simps ok_def reply_def proxy_body_def)
  from 1 A B C E show ?thesis
    by blast
qed

text \<open>
  Claim C1 as stated fails: \<^verbatim>\<open>createReadingList\<close> returns the empty record an envelope
  wraps, and raises on the same empty record sent directly.
\<close>

theorem unwrap_not_transparent_counterexample:
  "JSON_parse env0 ''{}'' = Inr (JObj [])
   \<and> snd (createReadingList
            (replies env0 (reply 200 ''OK'' (JObj [(''body'', JStr ''{}'')]))) (JObj []))
       = Inr (JObj [])
   \<and> snd (createReadingList (replies env0 (reply 200 ''OK'' (JObj []))) (JObj []))
       = Inl (Error ''Unexpected API response format'')"
  by (simp add: createReadingList_def Let_def replies_simps ok_def reply_def env0_def
      decode0_def proxy_body_def truthy_field_def convert_books_def)

section \<open>The repair of a legacy \<^verbatim>\<open>books\<close> field\<close>

lemma arrives_not_null:
  assumes "(proxy_body data = Some s \<and> JSON_parse env s = Inr p)
           \<or> (data = p \<and> proxy_body p = None)"
    and "truthy_field p k = Some v"
  shows "p \<noteq> JNull" and "data \<noteq> JNull"
  using assms by (auto dest: truthy_field_not_null proxy_body_not_null)

lemma createReadingList_arrives:
  assumes "ok r"
    and "(proxy_body data = Some s \<and> JSON_parse env s = Inr p)
         \<or> (data = p \<and> proxy_body p = None)"
    and "truthy_field p ''bookIds'' \<noteq> None \<or> truthy_field p ''books'' \<noteq> None"
  shows "snd (createReadingList (replies env (r\<lparr>resp_json := Inr data\<rparr>)) l)
           = Inr (convert_books p)"
proof -
  from assms(3) have "p \<noteq> JNull"
    by (auto dest: truthy_field_not_null)
  with assms show ?thesis
    using wrapped_createReadingList [of r data s env p l]
      direct_createReadingList [of r p env l]
    by auto
qed

lemma updateReadingList_arrives:
  assumes "ok r"
    and "(proxy_body data = Some s \<and> JSON_parse env s = Inr p)
         \<or> (data = p \<and> proxy_body p = None)"
    and "truthy_field p ''bookIds'' \<noteq> None \<or> truthy_field p ''books'' \<noteq> None"
  shows "snd (updateReadingList (replies env (r\<lparr>resp_json := Inr data\<rparr>)) i l)
           = Inr (convert_books p)"
proof -
  from assms(3) have "p \<noteq> JNull"
    by (auto dest: truthy_field_not_null)
  with assms show ?thesis
    using wrapped_updateReadingList [of r data s env p i l]
      direct_updateReadingList [of r p env i l]
    by auto
qed

lemma convert_books_bookIds:
  assumes "truthy_field p ''bookIds'' \<noteq> None \<or> truthy_field p ''books'' \<noteq> None"
  shows "truthy_field (convert_books p) ''bookIds'' \<noteq> None"
proof (cases "truthy_field p ''bookIds''")
  case (Some v)
  then show ?thesis by (simp add: convert_books_keep)
next
  case None
  with assms obtain b where b: "truthy_field p ''books'' = Some b" by auto
  with None show ?thesis
    by (simp add: convert_books_rename renamed_fields)
qed

text \<open>
  Claim C2, as amended. A 2xx reply brings the record \<open>p\<close> either inside an envelope or
  directly. When \<open>p\<close> carries a truthy \<^verbatim>\<open>books\<close> value (any array or object, a non-empty
  string, a non-zero number, \<^verbatim>\<open>true\<close>) and no truthy \<^verbatim>\<open>bookIds\<close>, both
  \<^verbatim>\<open>createReadingList\<close> and \<^verbatim>\<open>updateReadingList\<close> return \<open>p\<close> with that value stored
  under \<^verbatim>\<open>bookIds\<close> and \<^verbatim>\<open>books\<close> deleted. Consequently the returned record has a
  \<^verbatim>\<open>bookIds\<close> whenever the server sent a truthy \<^verbatim>\<open>bookIds\<close> or a truthy \<^verbatim>\<open>books\<close>.
\<close>

theorem books_renamed_to_bookIds:
  fixes env :: env and r :: response and data p :: json and E :: env
  defines "E \<equiv> replies env (r\<lparr>resp_json := Inr data\<rparr>)"
  assumes r: "ok r"
    and arrives: "(proxy_body data = Some s \<and> JSON_parse env s = Inr p)
                  \<or> (data = p \<and> proxy_body p = None)"
  shows "(\<forall>b. truthy_field p ''books'' = Some b \<and> truthy_field p ''bookIds'' = None \<longrightarrow>
            snd (createReadingList E l) = Inr (js_delete (js_set p ''bookIds'' b) ''books'')
            \<and> snd (updateReadingList E i l) = Inr (js_delete (js_set p ''bookIds'' b) ''books'')
            \<and> js_get (js_delete (js_set p ''bookIds'' b) ''books'') ''bookIds'' = Some b
            \<and> js_get (js_delete (js_set p ''bookIds'' b) ''books'') ''books'' = None)
       \<and> (truthy_field p ''bookIds'' \<noteq> None \<or> truthy_field p ''books'' \<noteq> None \<longrightarrow>
            (\<exists>q. snd (createReadingList E l) = Inr q
                 \<and> snd (updateReadingList E i l) = Inr q
                 \<and> truthy_field q ''bookIds'' \<noteq> None))"
proof (intro conjI allI impI)
  fix b
  assume b: "truthy_field p ''books'' = Some b \<and> truthy_field p ''bookIds'' = None"
  then have some: "truthy_field p ''bookIds'' \<noteq> None \<or> truthy_field p ''books'' \<noteq> None"
    by simp
  from b have conv: "convert_books p = js_delete (js_set p ''bookIds'' b) ''books''"
    by (simp add: convert_books_rename)
  show "snd (createReadingList E l) = Inr (js_delete (js_set p ''bookIds'' b) ''books'')"
    unfolding E_def using createReadingList_arrives [OF r arrives some] conv by simp
  show "snd (updateReadingList E i l) = Inr (js_delete (js_set p ''bookIds'' b) ''books'')"
    unfolding E_def using updateReadingList_arrives [OF r arrives some] conv by simp
  from b show "js_get (js_delete (js_set p ''bookIds'' b) ''books'') ''bookIds'' = Some b"
    by (simp add: renamed_fields)
  from b show "js_get (js_delete (js_set p ''bookIds'' b) ''books'') ''books'' = None"
    by (simp add: renamed_fields)
next
  assume some: "truthy_field p ''bookIds'' \<noteq> None \<or> truthy_field p ''books'' \<noteq> None"
  have "snd (createReadingList E l) = Inr (convert_books p)"
    unfolding E_def by (rule createReadingList_arrives [OF r arrives some])
  moreover have "snd (updateReadingList E i l) = Inr (convert_books p)"
    unfolding E_def by (rule updateReadingList_arrives [OF r arrives some])
  moreover have "truthy_field (convert_books p) ''bookIds'' \<noteq> None"
    by (rule convert_books_bookIds [OF some])
  ultimately show "\<exists>q. snd (createReadingList E l) = Inr q
      \<and> snd (updateReadingList E i l) = Inr q \<and> truthy_field q ''bookIds'' \<noteq> None"
    by blast
qed

text \<open>The record \<^verbatim>\<open>{"name":"Summer","books":["a"]}\<close>, sent directly, comes back from an
  update with \<^verbatim>\<open>bookIds\<close> in place of \<^verbatim>\<open>books\<close>.\<close>

theorem books_renamed_to_bookIds_witness:
  "ok (reply 200 ''OK'' (JObj [(''name'', JStr ''Summer''), (''books'', JArr [JStr ''a''])]))
   \<and> snd (updateReadingList
            (replies env0
               (reply 200 ''OK'' (JObj [(''name'', JStr ''Summer''), (''books'', JArr [JStr ''a''])])))
            ''l1'' (JObj []))
       = Inr (JObj [(''name'', JStr ''Summer''), (''bookIds'', JArr [JStr ''a''])])"
proof -
  let ?p = "JObj [(''name'', JStr ''Summer''), (''books'', JArr [JStr ''a''])]"
  let ?r = "reply 200 ''OK'' ?p"
  have 1: "ok ?r"
    by (simp add: ok_def reply_def)
  have 2: "(proxy_body ?p = Some [] \<and> JSON_parse env0 [] = Inr ?p)
           \<or> (?p = ?p \<and> proxy_body ?p = None)"
    by (simp add: proxy_body_def)
  have 3: "truthy_field ?p ''books'' = Some (JArr [JStr ''a''])
           \<and> truthy_field ?p ''bookIds'' = None"
    by (simp add: truthy_field_def)
  have 4: "?r\<lparr>resp_json := Inr ?p\<rparr> = ?r"
    by (simp add: reply_def)
  from books_renamed_to_bookIds [OF 1 2, where i = "''l1''" and l = "JObj []"] 3
  have "snd (updateReadingList (replies env0 (?r\<lparr>resp_json := Inr ?p\<rparr>)) ''l1'' (JObj []))
      = Inr (js_delete (js_set ?p ''bookIds'' (JArr [JStr ''a''])) ''books'')"
    by blast
  then have "snd (updateReadingList (replies env0 ?r) ''l1'' (JObj []))
      = Inr (js_delete (js_set ?p ''bookIds'' (JArr [JStr ''a''])) ''books'')"
    by (simp only: 4)
  with 1 show ?thesis
    by simp
qed

text \<open>
  Claim C2 as stated fails for a \<^verbatim>\<open>books\<close> field whose value is falsy: the record
  \<^verbatim>\<open>{"books":null}\<close> inside an envelope carries a \<^verbatim>\<open>books\<close> field and no \<^verbatim>\<open>bookIds\<close>
  field, and both calls return it as it is.
\<close>

theorem books_not_renamed_counterexample:
  "JSON_parse env0 (''{'' @ dq @ ''books'' @ dq @ '':null}'') = Inr (JObj [(''books'', JNull)])
   \<and> js_get (JObj [(''books'', JNull)]) ''books'' = Some JNull
   \<and> js_get (JObj [(''books'', JNull)]) ''bookIds'' = None
   \<and> snd (createReadingList
            (replies env0
               (reply 200 ''OK'' (JObj [(''body'', JStr (''{'' @ dq @ ''books'' @ dq @ '':null}''))])))
            (JObj []))
       = Inr (JObj [(''books'', JNull)])
   \<and> snd (updateReadingList
            (replies env0
               (reply 200 ''OK'' (JObj [(''body'', JStr (''{'' @ dq @ ''books'' @ dq @ '':null}''))])))
            ''l1'' (JObj []))
       = Inr (JObj [(''books'', JNull)])"
  by (simp add: createReadingList_def updateReadingList_def Let_def replies_simps ok_def
      reply_def env0_def decode0_def dq_def proxy_body_def truthy_field_def convert_books_def)

section \<open>Replies outside the 2xx range\<close>

lemma failed_plain:
  assumes "\<not> ok r"
  shows "snd (getBooks (replies env r))
           = Inl (Error (''Failed to fetch books: '' @ show_nat (status r) @ '' '' @ statusText r))"
    and "snd (createBook (replies env r) bk)
           = Inl (Error (''Failed to create book: '' @ show_nat (status r) @ '' '' @ statusText r))"
    and "snd (updateBook (replies env r) i bk)
           = Inl (Error (''Failed to update book: '' @ show_nat (status r) @ '' '' @ statusText r))"
    and "snd (createReadingList (replies env r) l)
           = Inl (Error (''Failed to create reading list: '' @ show_nat (status r) @ '' ''
                         @ statusText r))"
    and "snd (deleteReadingList (replies env r) i)
           = Inl (Error (''Failed to delete reading list: '' @ show_nat (status r) @ '' ''
                         @ statusText r))"
    and "snd (getReviews (replies env r) b)
           = Inl (Error (''Failed to fetch reviews: '' @ show_nat (status r) @ '' '' @ statusText r))"
    and "snd (createReview (replies env r) rv)
           = Inl (Error (''Failed to create review: '' @ show_nat (status r) @ '' '' @ statusText r))"
  using assms
  by (simp_all add: getBooks_def createBook_def updateBook_def createReadingList_def
      deleteReadingList_def getReviews_def createReview_def Let_def replies_simps)

lemma failed_deleteBook:
  assumes "\<not> ok r" "d \<noteq> []"
  shows "snd (deleteBook (replies env r) (Some d))
           = Inl (Error (''Failed to delete book: '' @ show_nat (status r) @ '' '' @ statusText r))"
  using assms by (simp add: deleteBook_def Let_def replies_simps)

lemma failed_getRecommendations:
  assumes "\<not> ok r" "status r \<noteq> 429"
  shows "snd (getRecommendations (replies env r) q) = Inl (Error ''Failed to get recommendations'')"
  using assms by (simp add: getRecommendations_def Let_def replies_simps)

lemma rate_limited:
  assumes "status r = 429" "resp_json r = Inr d" "d \<noteq> JNull"
  shows "snd (getRecommendations (replies env r) q)
           = (case truthy_field d ''error'' of
                Some v \<Rightarrow> (case js_String env v of Inl e \<Rightarrow> Inl e | Inr m \<Rightarrow> Inl (Error m))
              | None \<Rightarrow> Inl (Error ''AI service rate limit exceeded. Please try again in 24 hours.''))"
  using assms
  by (simp add: getRecommendations_def Let_def replies_simps js_String_replies ok_def
      split: option.splits)

lemma error_detail:
  "\<exists>x. (Inl (Error (case D of None \<Rightarrow> m | Some d \<Rightarrow> m @ '' - '' @ d)) :: error + 'a)
        = Inl (Error (m @ x))"
  by (cases D) auto

lemma failed_getReadingLists:
  assumes "\<not> ok r"
  shows "\<exists>x. snd (getReadingLists (replies env r))
           = Inl (Error (''Failed to fetch reading lists: '' @ show_nat (status r) @ '' ''
                         @ statusText r @ x))"
proof -
  have "\<exists>x. snd (getReadingLists (replies env r))
      = Inl (Error ((''Failed to fetch reading lists: '' @ show_nat (status r) @ '' ''
                     @ statusText r) @ x))"
    using assms
    apply (simp only: getReadingLists_def Let_def replies_simps snd_conv sum.case
        not_False_eq_True if_True)
    apply (rule error_detail)
    done
  then show ?thesis
    by (simp only: append_assoc)
qed

lemma failed_updateReadingList:
  assumes "\<not> ok r"
  shows "\<exists>x. snd (updateReadingList (replies env r) i l)
           = Inl (Error (''Failed to update reading list: '' @ show_nat (status r) @ '' ''
                         @ statusText r @ x))"
proof -
  have "\<exists>x. snd (updateReadingList (replies env r) i l)
      = Inl (Error ((''Failed to update reading list: '' @ show_nat (status r) @ '' ''
                     @ statusText r) @ x))"
    using assms
    apply (simp only: updateReadingList_def Let_def replies_simps snd_conv sum.case
        not_False_eq_True if_True)
    apply (rule error_detail)
    done
  then show ?thesis
    by (simp only: append_assoc)
qed

lemma failed_message_top:
  assumes "\<not> ok r" "resp_json r = Inr data" "truthy_field data ''message'' = Some (JStr m)"
  shows "snd (getReadingLists (replies env r))
           = Inl (Error (''Failed to fetch reading lists: '' @ show_nat (status r) @ '' ''
                         @ statusText r @ '' - '' @ m))"
    and "snd (updateReadingList (replies env r) i l)
           = Inl (Error (''Failed to update reading list: '' @ show_nat (status r) @ '' ''
                         @ statusText r @ '' - '' @ m))"
  using assms truthy_field_not_null [of data "''message''" "JStr m"]
  by (simp_all add: getReadingLists_def updateReadingList_def Let_def replies_simps
      js_String_replies js_String_JStr)

lemma failed_message_nested:
  assumes "\<not> ok r" "resp_json r = Inr data" "truthy_field data ''message'' = None"
    "proxy_body data = Some s" "JSON_parse env s = Inr p"
    "truthy_field p ''message'' = Some (JStr m)"
  shows "snd (getReadingLists (replies env r))
           = Inl (Error (''Failed to fetch reading lists: '' @ show_nat (status r) @ '' ''
                         @ statusText r @ '' - '' @ m))"
    and "snd (updateReadingList (replies env r) i l)
           = Inl (Error (''Failed to update reading list: '' @ show_nat (status r) @ '' ''
                         @ statusText r @ '' - '' @ m))"
  using assms truthy_field_not_null [of p "''message''" "JStr m"]
    proxy_body_not_null [of data s] proxy_body_truthy_field [of data s]
  by (simp_all add: getReadingLists_def updateReadingList_def Let_def replies_simps
      js_String_replies js_String_JStr)

text \<open>
  Claim C3, as amended. For a reply outside the 2xx range the operations that send a
  request raise as follows. \<^verbatim>\<open>getBooks\<close>, \<^verbatim>\<open>createBook\<close>, \<^verbatim>\<open>updateBook\<close>, \<^verbatim>\<open>deleteBook\<close>
  (given an id), \<^verbatim>\<open>createReadingList\<close>, \<^verbatim>\<open>deleteReadingList\<close>, \<^verbatim>\<open>getReviews\<close> and
  \<^verbatim>\<open>createReview\<close> raise an \<open>Error\<close> whose message is a fixed prefix followed by the status
  and the status text; they never look for a message of the server. \<^verbatim>\<open>getReadingLists\<close>
  and \<^verbatim>\<open>updateReadingList\<close> raise an \<open>Error\<close> whose message starts the same way, and
  append the server's message when the decoded body has a string \<^verbatim>\<open>message\<close> at top level
  or, failing that, inside its unwrapped \<^verbatim>\<open>body\<close>. \<^verbatim>\<open>getRecommendations\<close> raises an
  \<open>Error\<close> without the status: the fixed message \<^verbatim>\<open>Failed to get recommendations\<close> for
  every status but 429, and for a 429 whose body decodes to a value other than null
  the string \<^verbatim>\<open>error\<close> of that body, or the fixed rate-limit message when the body has
  no truthy \<^verbatim>\<open>error\<close>.
\<close>

theorem non_2xx_raises:
  fixes env :: env and r :: response and E :: env
  defines "E \<equiv> replies env r"
  assumes r: "\<not> ok r"
  shows "snd (getBooks E)
           = Inl (Error (''Failed to fetch books: '' @ show_nat (status r) @ '' '' @ statusText r))
    \<and> snd (createBook E bk)
           = Inl (Error (''Failed to create book: '' @ show_nat (status r) @ '' '' @ statusText r))
    \<and> snd (updateBook E i bk)
           = Inl (Error (''Failed to update book: '' @ show_nat (status r) @ '' '' @ statusText r))
    \<and> (d \<noteq> [] \<longrightarrow> snd (deleteBook E (Some d))
           = Inl (Error (''Failed to delete book: '' @ show_nat (status r) @ '' '' @ statusText r)))
    \<and> snd (createReadingList E l)
           = Inl (Error (''Failed to create reading list: '' @ show_nat (status r) @ '' ''
                         @ statusText r))
    \<and> snd (deleteReadingList E i)
           = Inl (Error (''Failed to delete reading list: '' @ show_nat (status r) @ '' ''
                         @ statusText r))
    \<and> snd (getReviews E b)
           = Inl (Error (''Failed to fetch reviews: '' @ show_nat (status r) @ '' '' @ statusText r))
    \<and> snd (createReview E rv)
           = Inl (Error (''Failed to create review: '' @ show_nat (status r) @ '' '' @ statusText r))
    \<and> (\<exists>x. snd (getReadingLists E)
           = Inl (Error (''Failed to fetch reading lists: '' @ show_nat (status r) @ '' ''
                         @ statusText r @ x)))
    \<and> (\<exists>x. snd (updateReadingList E i l)
           = Inl (Error (''Failed to update reading list: '' @ show_nat (status r) @ '' ''
                         @ statusText r @ x)))
    \<and> (\<forall>data s p m.
          resp_json r = Inr data
          \<and> (truthy_field data ''message'' = Some (JStr m)
             \<or> (truthy_field data ''message'' = None \<and> proxy_body data = Some s
                \<and> JSON_parse env s = Inr p \<and> truthy_field p ''message'' = Some (JStr m))) \<longrightarrow>
          snd (getReadingLists E)
            = Inl (Error (''Failed to fetch reading lists: '' @ show_nat (status r) @ '' ''
                          @ statusText r @ '' - '' @ m))
          \<and> snd (updateReadingList E i l)
            = Inl (Error (''Failed to update reading list: '' @ show_nat (status r) @ '' ''
                          @ statusText r @ '' - '' @ m)))
    \<and> (status r \<noteq> 429 \<longrightarrow>
          snd (getRecommendations E q) = Inl (Error ''Failed to get recommendations''))
    \<and> (\<forall>data m. status r = 429 \<and> resp_json r = Inr data
          \<and> truthy_field data ''error'' = Some (JStr m) \<longrightarrow>
          snd (getRecommendations E q) = Inl (Error m))
    \<and> (\<forall>data. status r = 429 \<and> resp_json r = Inr data \<and> data \<noteq> JNull
          \<and> truthy_field data ''error'' = None \<longrightarrow>
          snd (getRecommendations E q)
            = Inl (Error ''AI service rate limit exceeded. Please try again in 24 hours.''))"
proof -
  note plain = failed_plain [OF r, of env, folded E_def]
  have del: "d \<noteq> [] \<longrightarrow> snd (deleteBook E (Some d))
           = Inl (Error (''Failed to delete book: '' @ show_nat (status r) @ '' '' @ statusText r))"
    unfolding E_def using failed_deleteBook [OF r] by blast
  have rl: "\<exists>x. snd (getReadingLists E)
           = Inl (Error (''Failed to fetch reading lists: '' @ show_nat (status r) @ '' ''
                         @ statusText r @ x))"
    unfolding E_def by (rule failed_getReadingLists [OF r])
  have ul: "\<exists>x. snd (updateReadingList E i l)
           = Inl (Error (''Failed to update reading list: '' @ show_nat (status r) @ '' ''
                         @ statusText r @ x))"
    unfolding E_def by (rule failed_updateReadingList [OF r])
  have msg: "\<forall>data s p m.
          resp_json r = Inr data
          \<and> (truthy_field data ''message'' = Some (JStr m)
             \<or> (truthy_field data ''message'' = None \<and> proxy_body data = Some s
                \<and> JSON_parse env s = Inr p \<and> truthy_field p ''message'' = Some (JStr m))) \<longrightarrow>
          snd (getReadingLists E)
            = Inl (Error (''Failed to fetch reading lists: '' @ show_nat (status r) @ '' ''
                          @ statusText r @ '' - '' @ m))
          \<and> snd (updateReadingList E i l)
            = Inl (Error (''Failed to update reading list: '' @ show_nat (status r) @ '' ''
                          @ statusText r @ '' - '' @ m))"
    unfolding E_def using failed_message_top [OF r] failed_message_nested [OF r] by blast
  have recs: "status r \<noteq> 429 \<longrightarrow>
          snd (getRecommendations E q) = Inl (Error ''Failed to get recommendations'')"
    unfolding E_def using failed_getRecommendations [OF r] by blast
  have limit: "\<forall>data m. status r = 429 \<and> resp_json r = Inr data
          \<and> truthy_field data ''error'' = Some (JStr m) \<longrightarrow>
          snd (getRecommendations E q) = Inl (Error m)"
    unfolding E_def using truthy_field_not_null
    by (auto simp: rate_limited js_String_JStr)
  have dflt: "\<forall>data. status r = 429 \<and> resp_json r = Inr data \<and> data \<noteq> JNull
          \<and> truthy_field data ''error'' = None \<longrightarrow>
          snd (getRecommendations E q)
            = Inl (Error ''AI service rate limit exceeded. Please try again in 24 hours.'')"
    unfolding E_def by (auto simp: rate_limited)
  show ?thesis
    by (intro conjI) (rule plain del rl ul msg recs limit dflt)+
qed

text \<open>A 403 whose body is an envelope around \<^verbatim>\<open>{"message":"denied"}\<close>: the reading
  lists report the status and the nested message, the recommendations only their fixed
  text. A 429 with \<^verbatim>\<open>{"error":"Quota used"}\<close> raises that text, and a 429 with \<^verbatim>\<open>{}\<close>
  the rate-limit default.\<close>

theorem non_2xx_raises_witness:
  "\<not> ok (reply 403 ''Forbidden''
            (JObj [(''body'', JStr (''{'' @ dq @ ''message'' @ dq @ '':'' @ dq @ ''denied'' @ dq @ ''}''))]))
   \<and> snd (getReadingLists
            (replies env0
               (reply 403 ''Forbidden''
                  (JObj [(''body'',
                          JStr (''{'' @ dq @ ''message'' @ dq @ '':'' @ dq @ ''denied'' @ dq @ ''}''))]))))
       = Inl (Error ''Failed to fetch reading lists: 403 Forbidden - denied'')
   \<and> snd (getRecommendations
            (replies env0
               (reply 403 ''Forbidden''
                  (JObj [(''body'',
                          JStr (''{'' @ dq @ ''message'' @ dq @ '':'' @ dq @ ''denied'' @ dq @ ''}''))])))
            ''space opera'')
       = Inl (Error ''Failed to get recommendations'')
   \<and> snd (deleteBook
            (replies env0
               (reply 403 ''Forbidden''
                  (JObj [(''body'',
                          JStr (''{'' @ dq @ ''message'' @ dq @ '':'' @ dq @ ''denied'' @ dq @ ''}''))])))
            (Some ''a''))
       = Inl (Error ''Failed to delete book: 403 Forbidden'')
   \<and> snd (getRecommendations
            (replies env0 (reply 429 ''Too Many Requests'' (JObj [(''error'', JStr ''Quota used'')])))
            ''space opera'')
       = Inl (Error ''Quota used'')
   \<and> snd (getRecommendations (replies env0 (reply 429 ''Too Many Requests'' (JObj [])))
            ''space opera'')
       = Inl (Error ''AI service rate limit exceeded. Please try again in 24 hours.'')"
proof -
  let ?s = "''{'' @ dq @ ''message'' @ dq @ '':'' @ dq @ ''denied'' @ dq @ ''}''"
  let ?data = "JObj [(''body'', JStr ?s)]"
  let ?r = "reply 403 ''Forbidden'' ?data"
  have 1: "\<not> ok ?r"
    by (simp add: ok_def reply_def)
  have 2: "resp_json ?r = Inr ?data
           \<and> (truthy_field ?data ''message'' = Some (JStr ''denied'')
              \<or> (truthy_field ?data ''message'' = None \<and> proxy_body ?data = Some ?s
                 \<and> JSON_parse env0 ?s = Inr (JObj [(''message'', JStr ''denied'')])
                 \<and> truthy_field (JObj [(''message'', JStr ''denied'')]) ''message''
                     = Some (JStr ''denied'')))"
    by (simp add: reply_def truthy_field_def proxy_body_def env0_def decode0_def dq_def)
  have 3: "status ?r \<noteq> 429" "''a'' \<noteq> []"
    by (simp_all add: reply_def)
  have 4: "show_nat (status ?r) = ''403''" "statusText ?r = ''Forbidden''"
    by (simp_all add: reply_def show_nat.simps)
  note inst = non_2xx_raises [OF 1, of env0 _ _ "''a''" _ _ _ "''space opera''"]
  from inst 2 have "snd (getReadingLists (replies env0 ?r))
      = Inl (Error (''Failed to fetch reading lists: '' @ show_nat (status ?r) @ '' ''
                    @ statusText ?r @ '' - '' @ ''denied''))"
    by blast
  then have A: "snd (getReadingLists (replies env0 ?r))
      = Inl (Error ''Failed to fetch reading lists: 403 Forbidden - denied'')"
    by (simp only: 4) simp
  from inst 3 have B: "snd (getRecommendations (replies env0 ?r) ''space opera'')
      = Inl (Error ''Failed to get recommendations'')"
    by blast
  from inst 3 have "snd (deleteBook (replies env0 ?r) (Some ''a''))
      = Inl (Error (''Failed to delete book: '' @ show_nat (status ?r) @ '' '' @ statusText ?r))"
    by blast
  then have C: "snd (deleteBook (replies env0 ?r) (Some ''a''))
      = Inl (Error ''Failed to delete book: 403 Forbidden'')"
    by (simp only: 4) simp
  let ?e = "JObj [(''error'', JStr ''Quota used'')]"
  have 5: "\<not> ok (reply 429 ''Too Many Requests'' v)" for v
    by (simp add: ok_def reply_def)
  have 6: "status (reply 429 ''Too Many Requests'' ?e) = 429
      \<and> resp_json (reply 429 ''Too Many Requests'' ?e) = Inr ?e
      \<and> truthy_field ?e ''error'' = Some (JStr ''Quota used'')"
    by (simp add: reply_def truthy_field_def)
  have 7: "status (reply 429 ''Too Many Requests'' (JObj [])) = 429
      \<and> resp_json (reply 429 ''Too Many Requests'' (JObj [])) = Inr (JObj [])
      \<and> JObj [] \<noteq> JNull \<and> truthy_field (JObj []) ''error'' = None"
    by (simp add: reply_def truthy_field_def)
  note limit = non_2xx_raises [OF 5, where env = env0 and q = "''space opera''",
      THEN conjunct2, THEN conjunct2, THEN conjunct2, THEN conjunct2, THEN conjunct2,
      THEN conjunct2, THEN conjunct2, THEN conjunct2, THEN conjunct2, THEN conjunct2,
      THEN conjunct2, THEN conjunct2]
  have D: "snd (getRecommendations (replies env0 (reply 429 ''Too Many Requests'' ?e)) ''space opera'')
      = Inl (Error ''Quota used'')"
    by (rule limit [THEN conjunct1, rule_format, OF 6])
  have F: "snd (getRecommendations (replies env0 (reply 429 ''Too Many Requests'' (JObj [])))
        ''space opera'')
      = Inl (Error ''AI service rate limit exceeded. Please try again in 24 hours.'')"
    by (rule limit [THEN conjunct2, rule_format, OF 7])
  show ?thesis
    by (intro conjI) (rule 1 A B C D F)+
qed

text \<open>
  Claim C3 as stated fails for \<^verbatim>\<open>getRecommendations\<close>: a 500 and a 503 raise the same
  message, which holds neither status, and the message a server sends with a 500 is not
  in what \<^verbatim>\<open>getBooks\<close> raises.
\<close>

theorem getRecommendations_status_counterexample:
  "snd (getRecommendations (replies env0 (reply 500 ''Internal Server Error'' (JObj []))) ''space opera'')
     = Inl (Error ''Failed to get recommendations'')
   \<and> snd (getRecommendations (replies env0 (reply 503 ''Service Unavailable'' (JObj []))) ''space opera'')
     = Inl (Error ''Failed to get recommendations'')
   \<and> \<not> sublist (show_nat 500) ''Failed to get recommendations''
   \<and> \<not> sublist (show_nat 503) ''Failed to get recommendations''
   \<and> snd (getBooks (replies env0
        (reply 500 ''Internal Server Error'' (JObj [(''message'', JStr ''denied'')]))))
     = Inl (Error ''Failed to fetch books: 500 Internal Server Error'')"
  by (simp add: getRecommendations_def getBooks_def Let_def replies_simps ok_def reply_def
      show_nat.simps sublist_Cons_right)

section \<open>The rate limit of the recommendation endpoint\<close>

text \<open>
  Where the 429 branch does what claim C7 says: for a 429 reply whose body decodes to a
  JSON value other than null, \<^verbatim>\<open>getRecommendations\<close> raises an \<open>Error\<close> whose message
  is the body's \<^verbatim>\<open>error\<close> field when that field is truthy (the string itself when it is
  a string, its string form otherwise), and the fixed rate-limit message when the body
  has no truthy \<^verbatim>\<open>error\<close> field.
\<close>

theorem rate_limit_message:
  assumes "status r = 429" "resp_json r = Inr d" "d \<noteq> JNull"
  shows "(\<forall>m. truthy_field d ''error'' = Some (JStr m) \<longrightarrow>
            snd (getRecommendations (replies env r) q) = Inl (Error m))
       \<and> (\<forall>v m. truthy_field d ''error'' = Some v \<and> js_String env v = Inr m \<longrightarrow>
            snd (getRecommendations (replies env r) q) = Inl (Error m))
       \<and> (truthy_field d ''error'' = None \<longrightarrow>
            snd (getRecommendations (replies env r) q)
              = Inl (Error ''AI service rate limit exceeded. Please try again in 24 hours.''))"
  using rate_limited [OF assms, of env q]
  by (auto simp: js_String_JStr)

text \<open>A 429 with \<^verbatim>\<open>{"error":"Daily quota used"}\<close> raises that message, and a 429 with
  \<^verbatim>\<open>{"message":"Too Many Requests"}\<close>, which has no \<^verbatim>\<open>error\<close> field, the default.\<close>

theorem rate_limit_message_witness:
  "status (reply 429 ''Too Many Requests'' (JObj [(''error'', JStr ''Daily quota used'')])) = 429
   \<and> snd (getRecommendations
            (replies env0 (reply 429 ''Too Many Requests'' (JObj [(''error'', JStr ''Daily quota used'')])))
            ''space opera'')
       = Inl (Error ''Daily quota used'')
   \<and> snd (getRecommendations
            (replies env0
               (reply 429 ''Too Many Requests'' (JObj [(''message'', JStr ''Too Many Requests'')])))
            ''space opera'')
       = Inl (Error ''AI service rate limit exceeded. Please try again in 24 hours.'')"
proof -
  let ?d = "JObj [(''error'', JStr ''Daily quota used'')]"
  let ?d' = "JObj [(''message'', JStr ''Too Many Requests'')]"
  have 1: "status (reply 429 ''Too Many Requests'' v) = 429"
    "resp_json (reply 429 ''Too Many Requests'' v) = Inr v" for v
    by (simp_all add: reply_def)
  have 2: "?d \<noteq> JNull" "truthy_field ?d ''error'' = Some (JStr ''Daily quota used'')"
    by (simp_all add: truthy_field_def)
  have 3: "?d' \<noteq> JNull" "truthy_field ?d' ''error'' = None"
    by (simp_all add: truthy_field_def)
  from rate_limit_message [OF 1 2(1), of env0 "''space opera''"] 2(2)
  have A: "snd (getRecommendations (replies env0 (reply 429 ''Too Many Requests'' ?d)) ''space opera'')
      = Inl (Error ''Daily quota used'')"
    by blast
  from rate_limit_message [OF 1 3(1), of env0 "''space opera''"] 3(2)
  have B: "snd (getRecommendations (replies env0 (reply 429 ''Too Many Requests'' ?d')) ''space opera'')
      = Inl (Error ''AI service rate limit exceeded. Please try again in 24 hours.'')"
    by blast
  from 1(1) A B show ?thesis
    by blast
qed

text \<open>
  Claim C7: a 429 of the recommendation endpoint raises the server's message, or the
  fixed default when the server supplies none. The 429 branch misses two replies that
  supply none: a body that is the JSON \<^verbatim>\<open>null\<close> raises the TypeError of reading
  \<^verbatim>\<open>.error\<close>, and a body that does not decode raises the decoder's error, where
  \<^verbatim>\<open>getReadingLists\<close> and \<^verbatim>\<open>updateReadingList\<close> catch both and keep their default.
\<close>

theorem rate_limit_body_not_decoded:
  "snd (getRecommendations (replies env0 (reply 429 ''Too Many Requests'' JNull)) ''space opera'')
     = Inl (NullRead ''error'')
   \<and> snd (getRecommendations
            (replies env0 \<lparr>status = 429, statusText = ''Too Many Requests'',
                            resp_json = Inl (Raised ''SyntaxError'')\<rparr>)
            ''space opera'')
     = Inl (Raised ''SyntaxError'')"
  by (simp add: getRecommendations_def Let_def replies_simps ok_def reply_def)

section \<open>Replies of an unexpected shape\<close>

lemma shape_direct:
  assumes "ok r" "resp_json r = Inr data" "data \<noteq> JNull" "\<not> isArray data"
    "proxy_body data = None"
  shows "snd (getBooks (replies env r)) = Inr (JArr [])"
    and "snd (getReviews (replies env r) b) = Inr (JArr [])"
    and "snd (getReadingLists (replies env r)) = Inl (Error ''Unexpected API response format'')"
    and "array_field data ''recommendations'' = None \<Longrightarrow>
         snd (getRecommendations (replies env r) q) = Inl (Error ''Unexpected API response format'')"
  using assms
  by (simp_all add: getBooks_def getReviews_def getReadingLists_def getRecommendations_def
      Let_def replies_simps)

lemma shape_wrapped:
  assumes "ok r" "resp_json r = Inr data" "proxy_body data = Some s"
    "JSON_parse env s = Inr p" "\<not> isArray p"
  shows "snd (getBooks (replies env r)) = Inr (JArr [])"
    and "snd (getReviews (replies env r) b) = Inr (JArr [])"
    and "snd (getReadingLists (replies env r)) = Inl (Error ''API response body is not an array'')"
    and "p \<noteq> JNull \<Longrightarrow> array_field p ''recommendations'' = None \<Longrightarrow>
         array_field data ''recommendations'' = None \<Longrightarrow>
         snd (getRecommendations (replies env r) q) = Inl (Error ''Unexpected API response format'')"
  using assms proxy_body_not_null [of data s] proxy_body_not_array [of data s]
  by (simp_all add: getBooks_def getReviews_def getReadingLists_def getRecommendations_def
      Let_def replies_simps)

text \<open>
  Claim C10, as amended. Take a 2xx reply whose decoded JSON is neither null nor an
  array. When it carries no non-empty string \<^verbatim>\<open>body\<close>, \<^verbatim>\<open>getBooks\<close> and \<^verbatim>\<open>getReviews\<close>
  return the empty array, \<^verbatim>\<open>getReadingLists\<close> raises \<^verbatim>\<open>Unexpected API response format\<close>,
  and so does \<^verbatim>\<open>getRecommendations\<close> unless the JSON has a \<^verbatim>\<open>recommendations\<close> array.
  When it is an envelope whose \<^verbatim>\<open>body\<close> decodes to something that is not an array,
  \<^verbatim>\<open>getBooks\<close> and \<^verbatim>\<open>getReviews\<close> again return the empty array, \<^verbatim>\<open>getReadingLists\<close>
  raises \<^verbatim>\<open>API response body is not an array\<close>, and \<^verbatim>\<open>getRecommendations\<close> raises
  \<^verbatim>\<open>Unexpected API response format\<close> when the decoded body is not null and neither it nor
  the envelope has a \<^verbatim>\<open>recommendations\<close> array.
\<close>

theorem unexpected_shape:
  fixes env :: env and r :: response and data :: json and E :: env
  defines "E \<equiv> replies env r"
  assumes a: "ok r" "resp_json r = Inr data" "data \<noteq> JNull" "\<not> isArray data"
  shows "(proxy_body data = None \<longrightarrow>
            snd (getBooks E) = Inr (JArr [])
            \<and> snd (getReviews E b) = Inr (JArr [])
            \<and> snd (getReadingLists E) = Inl (Error ''Unexpected API response format'')
            \<and> (array_field data ''recommendations'' = None \<longrightarrow>
                 snd (getRecommendations E q) = Inl (Error ''Unexpected API response format'')))
       \<and> (\<forall>s p. proxy_body data = Some s \<and> JSON_parse env s = Inr p \<and> \<not> isArray p \<longrightarrow>
            snd (getBooks E) = Inr (JArr [])
            \<and> snd (getReviews E b) = Inr (JArr [])
            \<and> snd (getReadingLists E) = Inl (Error ''API response body is not an array'')
            \<and> (p \<noteq> JNull \<and> array_field p ''recommendations'' = None
                \<and> array_field data ''recommendations'' = None \<longrightarrow>
                 snd (getRecommendations E q) = Inl (Error ''Unexpected API response format'')))"
proof (intro conjI allI impI)
  assume d: "proxy_body data = None"
  show "snd (getBooks E) = Inr (JArr [])"
    unfolding E_def by (rule shape_direct(1) [OF a d])
  show "snd (getReviews E b) = Inr (JArr [])"
    unfolding E_def by (rule shape_direct(2) [OF a d])
  show "snd (getReadingLists E) = Inl (Error ''Unexpected API response format'')"
    unfolding E_def by (rule shape_direct(3) [OF a d])
  show "snd (getRecommendations E q) = Inl (Error ''Unexpected API response format'')"
    if "array_field data ''recommendations'' = None"
    unfolding E_def by (rule shape_direct(4) [OF a d that])
next
  fix s p
  assume w: "proxy_body data = Some s \<and> JSON_parse env s = Inr p \<and> \<not> isArray p"
  then have w': "proxy_body data = Some s" "JSON_parse env s = Inr p" "\<not> isArray p"
    by simp_all
  show "snd (getBooks E) = Inr (JArr [])"
    unfolding E_def by (rule shape_wrapped(1) [OF a(1,2) w'])
  show "snd (getReviews E b) = Inr (JArr [])"
    unfolding E_def by (rule shape_wrapped(2) [OF a(1,2) w'])
  show "snd (getReadingLists E) = Inl (Error ''API response body is not an array'')"
    unfolding E_def by (rule shape_wrapped(3) [OF a(1,2) w'])
  show "snd (getRecommendations E q) = Inl (Error ''Unexpected API response format'')"
    if "p \<noteq> JNull \<and> array_field p ''recommendations'' = None
        \<and> array_field data ''recommendations'' = None"
    unfolding E_def using shape_wrapped(4) [OF a(1,2) w'] that by blast
qed

text \<open>The object \<^verbatim>\<open>{"count":0}\<close> sent directly, and an envelope around \<^verbatim>\<open>{}\<close>.\<close>

theorem unexpected_shape_witness:
  "ok (reply 200 ''OK'' (JObj [(''count'', JNum 0)]))
   \<and> snd (getBooks (replies env0 (reply 200 ''OK'' (JObj [(''count'', JNum 0)])))) = Inr (JArr [])
   \<and> snd (getReadingLists (replies env0 (reply 200 ''OK'' (JObj [(''count'', JNum 0)]))))
       = Inl (Error ''Unexpected API response format'')
   \<and> snd (getRecommendations (replies env0 (reply 200 ''OK'' (JObj [(''count'', JNum 0)])))
            ''space opera'')
       = Inl (Error ''Unexpected API response format'')
   \<and> snd (getReviews (replies env0 (reply 200 ''OK'' (JObj [(''body'', JStr ''{}'')]))) ''a'')
       = Inr (JArr [])
   \<and> snd (getRecommendations (replies env0 (reply 200 ''OK'' (JObj [(''body'', JStr ''{}'')])))
            ''space opera'')
       = Inl (Error ''Unexpected API response format'')"
proof -
  let ?d = "JObj [(''count'', JNum 0)]"
  let ?w = "JObj [(''body'', JStr ''{}'')]"
  have 1: "ok (reply 200 ''OK'' v)" "resp_json (reply 200 ''OK'' v) = Inr v" for v
    by (simp_all add: ok_def reply_def)
  have 2: "?d \<noteq> JNull" "\<not> isArray ?d"
    by simp_all
  have 3: "proxy_body ?d = None" "array_field ?d ''recommendations'' = None"
    by (simp_all add: proxy_body_def array_field_def truthy_field_def)
  have 4: "?w \<noteq> JNull" "\<not> isArray ?w"
    by simp_all
  have 5: "proxy_body ?w = Some ''{}'' \<and> JSON_parse env0 ''{}'' = Inr (JObj [])
           \<and> \<not> isArray (JObj [])"
    by (simp add: proxy_body_def env0_def decode0_def)
  have 6: "JObj [] \<noteq> JNull \<and> array_field (JObj []) ''recommendations'' = None
           \<and> array_field ?w ''recommendations'' = None"
    by (simp add: array_field_def truthy_field_def)
  from unexpected_shape [OF 1 2, of env0 _ "''space opera''"] 3
  have A: "snd (getBooks (replies env0 (reply 200 ''OK'' ?d))) = Inr (JArr [])"
    "snd (getReadingLists (replies env0 (reply 200 ''OK'' ?d)))
       = Inl (Error ''Unexpected API response format'')"
    "snd (getRecommendations (replies env0 (reply 200 ''OK'' ?d)) ''space opera'')
       = Inl (Error ''Unexpected API response format'')"
    by blast+
  from unexpected_shape [OF 1 4, of env0 "''a''" "''space opera''"] 5 6
  have B: "snd (getReviews (replies env0 (reply 200 ''OK'' ?w)) ''a'') = Inr (JArr [])"
    "snd (getRecommendations (replies env0 (reply 200 ''OK'' ?w)) ''space opera'')
       = Inl (Error ''Unexpected API response format'')"
    by blast+
  from 1(1) A B show ?thesis
    by blast
qed

text \<open>
  Claim C10 as stated fails in three places: for an envelope around \<^verbatim>\<open>{}\<close>
  \<^verbatim>\<open>getReadingLists\<close> raises another message than \<^verbatim>\<open>Unexpected API response format\<close>; for
  the JSON \<^verbatim>\<open>null\<close>, which is not an array either, \<^verbatim>\<open>getBooks\<close> and \<^verbatim>\<open>getReviews\<close> raise
  instead of returning the empty array; and \<^verbatim>\<open>getRecommendations\<close> returns the
  \<^verbatim>\<open>recommendations\<close> array of an object instead of raising.
\<close>

theorem unexpected_shape_counterexample:
  "snd (getReadingLists (replies env0 (reply 200 ''OK'' (JObj [(''body'', JStr ''{}'')]))))
     = Inl (Error ''API response body is not an array'')
   \<and> snd (getBooks (replies env0 (reply 200 ''OK'' JNull))) = Inl (NullRead ''body'')
   \<and> snd (getReviews (replies env0 (reply 200 ''OK'' JNull)) ''a'') = Inl (NullRead ''body'')
   \<and> snd (getRecommendations
            (replies env0 (reply 200 ''OK'' (JObj [(''recommendations'', JArr [])]))) ''space opera'')
     = Inr (JArr [])"
  by (simp add: getReadingLists_def getBooks_def getReviews_def getRecommendations_def Let_def
      replies_simps ok_def reply_def env0_def decode0_def proxy_body_def array_field_def
      truthy_field_def)

section \<open>Adding a book to a list and removing one\<close>

lemma requests_append: "requests (xs @ ys) = requests xs @ requests ys"
  by (induction xs rule: requests.induct) simp_all

lemma requests_Io: "requests (map Io ios) = [r. Fetch r \<leftarrow> ios]"
proof (induction ios)
  case Nil
  show ?case by simp
next
  case (Cons x ios)
  then show ?case by (cases x) simp_all
qed

lemma setters_Io: "filter is_setter (map Io ios) = []"
  by (induction ios) simp_all

lemma fst_updateReadingList_env:
  "fst (updateReadingList env i l)
     = [Fetch \<lparr>req_method = PUT, req_url = API_BASE_URL env @ ''/reading-lists/'' @ i,
               req_headers = getAuthHeaders env, req_body = Some l\<rparr>]"
  by (simp add: updateReadingList_def Let_def)

lemma handleSelectList_present:
  assumes "book st = Some b" "find (\<lambda>l. list_id l = listId) (readingLists st) = Some l"
    "book_id b \<in> set (bookIds l)"
  shows "handleSelectList env st listId
           = [SetIsAddingToList True, ShowSuccess ''Book is already in this reading list!'',
              SetIsModalOpen False, SetIsAddingToList False]"
  using assms by (simp add: handleSelectList_def)

lemma handleSelectList_absent:
  assumes "book st = Some b" "find (\<lambda>l. list_id l = listId) (readingLists st) = Some l"
    "book_id b \<notin> set (bookIds l)"
  shows "handleSelectList env st listId
           = SetIsAddingToList True
             # Io (Fetch \<lparr>req_method = PUT,
                          req_url = API_BASE_URL env @ ''/reading-lists/'' @ listId,
                          req_headers = getAuthHeaders env,
                          req_body = Some (list_update (list_name l) (list_description l)
                                             (bookIds l @ [book_id b]))\<rparr>)
             # (case snd (updateReadingList env listId
                            (list_update (list_name l) (list_description l)
                               (bookIds l @ [book_id b]))) of
                  Inl e \<Rightarrow> [HandleApiError e]
                | Inr r \<Rightarrow>
                    [ShowSuccess (''Added '' @ dq @ title b @ dq @ '' to '' @ dq @ list_name l
                                  @ dq @ ''!''),
                     SetIsModalOpen False])
             @ [SetIsAddingToList False]"
  using assms
  by (simp add: handleSelectList_def Let_def case_prod_beta fst_updateReadingList_env)

lemma handleSelectList_no_setter: "filter is_setter (handleSelectList env st listId) = []"
  by (simp add: handleSelectList_def Let_def case_prod_beta setters_Io
      split: option.splits sum.splits)

lemma foldl_bookDetail_keeps:
  "filter is_setter evs = [] \<Longrightarrow>
   readingLists (foldl set_bookDetail st evs) = readingLists st
   \<and> book (foldl set_bookDetail st evs) = book st"
proof (induction evs arbitrary: st)
  case Nil
  show ?case by simp
next
  case (Cons e evs)
  then show ?case by (cases e) (simp_all split: if_splits)
qed

lemma list_update_fields:
  "js_get (list_update n d ids) ''name'' = Some (JStr n)"
  "js_get (list_update n d ids) ''description'' = map_option JStr d"
  "js_get (list_update n d ids) ''bookIds'' = Some (JArr (map JStr ids))"
  by (simp_all add: list_update_def split: option.splits)

lemma handleRemoveBook_unfold:
  assumes "readingList st = Some rl"
  shows "handleRemoveBook env st bid
           = Io (Fetch \<lparr>req_method = PUT,
                        req_url = API_BASE_URL env @ ''/reading-lists/'' @ list_id rl,
                        req_headers = getAuthHeaders env,
                        req_body = Some (list_update (list_name rl) (list_description rl)
                                           (filter (\<lambda>i. i \<noteq> bid) (bookIds rl)))\<rparr>)
             # (case snd (updateReadingList env (list_id rl)
                            (list_update (list_name rl) (list_description rl)
                               (filter (\<lambda>i. i \<noteq> bid) (bookIds rl)))) of
                  Inl e \<Rightarrow> [HandleApiError e]
                | Inr r \<Rightarrow>
                    [SetReadingList (Some (rl\<lparr>bookIds := filter (\<lambda>i. i \<noteq> bid) (bookIds rl)\<rparr>)),
                     SetBooks (filter (\<lambda>b. book_id b \<noteq> bid) (books st)),
                     ShowSuccess ''Book removed from list!''])"
  using assms
  by (simp add: handleRemoveBook_def Let_def case_prod_beta fst_updateReadingList_env)

lemma handleRemoveBook_bookIds:
  "map_option bookIds (readingList (foldl set_listDetail st (handleRemoveBook env st bid)))
     = (case readingList st of
          None \<Rightarrow> None
        | Some rl \<Rightarrow>
            (case snd (updateReadingList env (list_id rl)
                         (list_update (list_name rl) (list_description rl)
                            (filter (\<lambda>i. i \<noteq> bid) (bookIds rl)))) of
               Inl e \<Rightarrow> Some (bookIds rl)
             | Inr r \<Rightarrow> Some (filter (\<lambda>i. i \<noteq> bid) (bookIds rl))))"
proof (cases "readingList st")
  case None
  then show ?thesis by (simp add: handleRemoveBook_def)
next
  case (Some rl)
  then show ?thesis
    by (simp add: handleRemoveBook_unfold [OF Some] split: sum.splits)
qed

text \<open>
  Claim C4. The page shows a book \<open>b\<close> and the list selected is \<open>l\<close>. When the id of
  \<open>b\<close> is already among the \<^verbatim>\<open>bookIds\<close> of \<open>l\<close>, the handler sends no request, shows the
  notice \<^verbatim>\<open>Book is already in this reading list!\<close>, reports no error and leaves the lists
  it holds as they are. Otherwise it sends one \<^verbatim>\<open>PUT /reading-lists/{id}\<close> whose body is
  the full record: the name, the description and the \<^verbatim>\<open>bookIds\<close> with the id appended.
\<close>

theorem add_to_list:
  assumes "book st = Some b" "find (\<lambda>l. list_id l = listId) (readingLists st) = Some l"
  shows "(book_id b \<in> set (bookIds l) \<longrightarrow>
            handleSelectList env st listId
              = [SetIsAddingToList True, ShowSuccess ''Book is already in this reading list!'',
                 SetIsModalOpen False, SetIsAddingToList False]
            \<and> requests (handleSelectList env st listId) = []
            \<and> readingLists (foldl set_bookDetail st (handleSelectList env st listId))
                = readingLists st)
       \<and> (book_id b \<notin> set (bookIds l) \<longrightarrow>
            (\<exists>payload.
               requests (handleSelectList env st listId)
                 = [\<lparr>req_method = PUT,
                     req_url = API_BASE_URL env @ ''/reading-lists/'' @ listId,
                     req_headers = getAuthHeaders env, req_body = Some payload\<rparr>]
               \<and> js_get payload ''name'' = Some (JStr (list_name l))
               \<and> js_get payload ''description'' = map_option JStr (list_description l)
               \<and> js_get payload ''bookIds'' = Some (JArr (map JStr (bookIds l @ [book_id b])))))"
proof (intro conjI impI)
  assume present: "book_id b \<in> set (bookIds l)"
  note evs = handleSelectList_present [OF assms present, of env]
  show "handleSelectList env st listId
      = [SetIsAddingToList True, ShowSuccess ''Book is already in this reading list!'',
         SetIsModalOpen False, SetIsAddingToList False]"
    by (rule evs)
  show "requests (handleSelectList env st listId) = []"
    by (simp add: evs)
  show "readingLists (foldl set_bookDetail st (handleSelectList env st listId)) = readingLists st"
    by (simp add: evs)
next
  assume absent: "book_id b \<notin> set (bookIds l)"
  let ?payload = "list_update (list_name l) (list_description l) (bookIds l @ [book_id b])"
  have "requests (handleSelectList env st listId)
      = [\<lparr>req_method = PUT, req_url = API_BASE_URL env @ ''/reading-lists/'' @ listId,
          req_headers = getAuthHeaders env, req_body = Some ?payload\<rparr>]"
    by (simp add: handleSelectList_absent [OF assms absent] requests_append split: sum.splits)
  then show "\<exists>payload.
      requests (handleSelectList env st listId)
        = [\<lparr>req_method = PUT, req_url = API_BASE_URL env @ ''/reading-lists/'' @ listId,
            req_headers = getAuthHeaders env, req_body = Some payload\<rparr>]
      \<and> js_get payload ''name'' = Some (JStr (list_name l))
      \<and> js_get payload ''description'' = map_option JStr (list_description l)
      \<and> js_get payload ''bookIds'' = Some (JArr (map JStr (bookIds l @ [book_id b])))"
    using list_update_fields [of "list_name l" "list_description l" "bookIds l @ [book_id b]"]
    by blast
qed

text \<open>The page \<open>page0\<close> shows book \<open>b\<close>: list \<open>l1\<close> already has it, list \<open>l2\<close> does not.\<close>

theorem add_to_list_witness:
  "book page0 = Some book_b
   \<and> handleSelectList env0 page0 ''l1''
       = [SetIsAddingToList True, ShowSuccess ''Book is already in this reading list!'',
          SetIsModalOpen False, SetIsAddingToList False]
   \<and> requests (handleSelectList env0 page0 ''l1'') = []
   \<and> requests (handleSelectList env0 page0 ''l2'')
       = [\<lparr>req_method = PUT, req_url = ''https://api.example/reading-lists/l2'',
           req_headers = [(''Authorization'', ''Bearer token''),
                          (''Content-Type'', ''application/json'')],
           req_body = Some (JObj [(''name'', JStr ''Winter''),
                                  (''description'', JStr ''For the cold''),
                                  (''bookIds'', JArr [JStr ''a'', JStr ''b''])])\<rparr>]"
proof -
  have 1: "book page0 = Some book_b"
    by (simp add: page0_def)
  have 2: "find (\<lambda>l. list_id l = ''l1'') (readingLists page0) = Some list0"
    by (simp add: page0_def list0_def)
  have 3: "book_id book_b \<in> set (bookIds list0)"
    by (simp add: book_b_def list0_def)
  from add_to_list [OF 1 2, of env0] 3
  have A: "handleSelectList env0 page0 ''l1''
       = [SetIsAddingToList True, ShowSuccess ''Book is already in this reading list!'',
          SetIsModalOpen False, SetIsAddingToList False]"
    "requests (handleSelectList env0 page0 ''l1'') = []"
    by blast+
  have B: "requests (handleSelectList env0 page0 ''l2'')
       = [\<lparr>req_method = PUT, req_url = ''https://api.example/reading-lists/l2'',
           req_headers = [(''Authorization'', ''Bearer token''),
                          (''Content-Type'', ''application/json'')],
           req_body = Some (JObj [(''name'', JStr ''Winter''),
                                  (''description'', JStr ''For the cold''),
                                  (''bookIds'', JArr [JStr ''a'', JStr ''b''])])\<rparr>]"
    by (simp add: handleSelectList_def updateReadingList_def Let_def page0_def list0_def
        list1_def book_b_def env0_def getAuthHeaders_def list_update_def)
  from 1 A B show ?thesis
    by blast
qed

text \<open>
  Claim C5. Neither handler calls a setter of a list or of the books before its request:
  \<^verbatim>\<open>handleSelectList\<close> calls none at all, and in \<^verbatim>\<open>handleRemoveBook\<close> none stands before
  the request. When \<^verbatim>\<open>updateReadingList\<close> raises \<open>e\<close>, the handler reports \<open>e\<close> and the
  lists and books the page holds are what they were before.
\<close>

theorem no_local_first_update:
  "filter is_setter (handleSelectList env st listId) = []
   \<and> readingLists (foldl set_bookDetail st (handleSelectList env st listId)) = readingLists st
   \<and> book (foldl set_bookDetail st (handleSelectList env st listId)) = book st
   \<and> (\<forall>b l e. book st = Some b
         \<and> find (\<lambda>l. list_id l = listId) (readingLists st) = Some l
         \<and> book_id b \<notin> set (bookIds l)
         \<and> snd (updateReadingList env listId
                  (list_update (list_name l) (list_description l) (bookIds l @ [book_id b])))
             = Inl e \<longrightarrow>
         HandleApiError e \<in> set (handleSelectList env st listId))
   \<and> filter is_setter (takeWhile (\<lambda>ev. requests [ev] = []) (handleRemoveBook env ld bid)) = []
   \<and> (\<forall>rl e. readingList ld = Some rl
         \<and> snd (updateReadingList env (list_id rl)
                  (list_update (list_name rl) (list_description rl)
                     (filter (\<lambda>i. i \<noteq> bid) (bookIds rl))))
             = Inl e \<longrightarrow>
         foldl set_listDetail ld (handleRemoveBook env ld bid) = ld
         \<and> filter is_setter (handleRemoveBook env ld bid) = []
         \<and> HandleApiError e \<in> set (handleRemoveBook env ld bid))"
proof -
  have 1: "filter is_setter (handleSelectList env st listId) = []"
    by (rule handleSelectList_no_setter)
  note 2 = foldl_bookDetail_keeps [OF 1, of st]
  have 3: "\<forall>b l e. book st = Some b
         \<and> find (\<lambda>l. list_id l = listId) (readingLists st) = Some l
         \<and> book_id b \<notin> set (bookIds l)
         \<and> snd (updateReadingList env listId
                  (list_update (list_name l) (list_description l) (bookIds l @ [book_id b])))
             = Inl e \<longrightarrow>
         HandleApiError e \<in> set (handleSelectList env st listId)"
    by (auto simp: handleSelectList_absent)
  have 4: "filter is_setter (takeWhile (\<lambda>ev. requests [ev] = []) (handleRemoveBook env ld bid)) = []"
  proof (cases "readingList ld")
    case None
    then show ?thesis by (simp add: handleRemoveBook_def)
  next
    case (Some rl)
    show ?thesis by (simp add: handleRemoveBook_unfold [OF Some])
  qed
  have 5: "\<forall>rl e. readingList ld = Some rl
         \<and> snd (updateReadingList env (list_id rl)
                  (list_update (list_name rl) (list_description rl)
                     (filter (\<lambda>i. i \<noteq> bid) (bookIds rl))))
             = Inl e \<longrightarrow>
         foldl set_listDetail ld (handleRemoveBook env ld bid) = ld
         \<and> filter is_setter (handleRemoveBook env ld bid) = []
         \<and> HandleApiError e \<in> set (handleRemoveBook env ld bid)"
    by (auto simp: handleRemoveBook_unfold)
  from 1 2 3 4 5 show ?thesis
    by blast
qed

text \<open>In \<open>env0\<close> the transport fails, so both updates raise the transport's error.\<close>

theorem no_local_first_update_witness:
  "snd (updateReadingList env0 (list_id list0)
          (list_update (list_name list0) (list_description list0)
             (filter (\<lambda>i. i \<noteq> ''a'') (bookIds list0))))
     = Inl (Raised ''NetworkError'')
   \<and> foldl set_listDetail detail0 (handleRemoveBook env0 detail0 ''a'') = detail0
   \<and> HandleApiError (Raised ''NetworkError'') \<in> set (handleRemoveBook env0 detail0 ''a'')
   \<and> HandleApiError (Raised ''NetworkError'') \<in> set (handleSelectList env0 page0 ''l2'')"
proof -
  have 1: "snd (updateReadingList env0 i l) = Inl (Raised ''NetworkError'')" for i l
    by (simp add: updateReadingList_def Let_def env0_def)
  have 2: "readingList detail0 = Some list0"
    by (simp add: detail0_def)
  have 3: "book page0 = Some book_b
      \<and> find (\<lambda>l. list_id l = ''l2'') (readingLists page0) = Some list1
      \<and> book_id book_b \<notin> set (bookIds list1)"
    by (simp add: page0_def list0_def list1_def book_b_def)
  note inst = no_local_first_update [of env0 page0 "''l2''" detail0 "''a''"]
  from inst 1 2 have A: "foldl set_listDetail detail0 (handleRemoveBook env0 detail0 ''a'') = detail0"
    "HandleApiError (Raised ''NetworkError'') \<in> set (handleRemoveBook env0 detail0 ''a'')"
    by blast+
  from inst 1 3 have B: "HandleApiError (Raised ''NetworkError'')
      \<in> set (handleSelectList env0 page0 ''l2'')"
    by blast
  from 1 A B show ?thesis
    by blast
qed

text \<open>
  Claim C6, as amended. \<^verbatim>\<open>handleRemoveBook\<close> sends the \<^verbatim>\<open>bookIds\<close> of the list with every
  occurrence of the id filtered out. When the update succeeds, the page holds the list
  with exactly those \<^verbatim>\<open>bookIds\<close> and exactly the books whose id is another one; when the
  update raises, the page holds what it held before. So an id that is not among the
  \<^verbatim>\<open>bookIds\<close> leaves them, and their number, as they were whether the update succeeds or
  not; and for a list with \<^verbatim>\<open>bookIds\<close> \<open>[a, b]\<close> whose update succeeds, removing \<open>a\<close>
  leaves the \<^verbatim>\<open>bookIds\<close> \<open>[b]\<close> and, of the books of that list, the record of \<open>b\<close> alone.
\<close>

theorem remove_from_list:
  fixes env :: env and st st' :: listDetail and rl :: readingList and bid :: string
    and sent :: "string list" and res :: "error + json"
  defines "sent \<equiv> filter (\<lambda>i. i \<noteq> bid) (bookIds rl)"
    and "res \<equiv> snd (updateReadingList env (list_id rl)
                     (list_update (list_name rl) (list_description rl)
                        (filter (\<lambda>i. i \<noteq> bid) (bookIds rl))))"
    and "st' \<equiv> foldl set_listDetail st (handleRemoveBook env st bid)"
  assumes rl: "readingList st = Some rl"
  shows "requests (handleRemoveBook env st bid)
           = [\<lparr>req_method = PUT,
               req_url = API_BASE_URL env @ ''/reading-lists/'' @ list_id rl,
               req_headers = getAuthHeaders env,
               req_body = Some (list_update (list_name rl) (list_description rl) sent)\<rparr>]
       \<and> (\<forall>q. res = Inr q \<longrightarrow>
            readingList st' = Some (rl\<lparr>bookIds := sent\<rparr>)
            \<and> books st' = filter (\<lambda>x. book_id x \<noteq> bid) (books st))
       \<and> (\<forall>e. res = Inl e \<longrightarrow> st' = st)
       \<and> (bid \<notin> set (bookIds rl) \<longrightarrow>
            sent = bookIds rl
            \<and> map_option bookIds (readingList st') = Some (bookIds rl)
            \<and> map_option (length \<circ> bookIds) (readingList st') = Some (length (bookIds rl)))
       \<and> (\<forall>q. bid = ''a'' \<and> bookIds rl = [''a'', ''b''] \<and> res = Inr q \<longrightarrow>
            readingList st' = Some (rl\<lparr>bookIds := [''b'']\<rparr>)
            \<and> (book_id ` set (books st) \<subseteq> set (bookIds rl) \<longrightarrow>
                 (\<forall>x \<in> set (books st'). book_id x = ''b''))
            \<and> (\<forall>A B. books st = [A, B] \<and> book_id A = ''a'' \<and> book_id B = ''b'' \<longrightarrow>
                 books st' = [B]))"
proof -
  note evs = handleRemoveBook_unfold [OF rl, of env bid, folded res_def sent_def]
  have 1: "requests (handleRemoveBook env st bid)
      = [\<lparr>req_method = PUT, req_url = API_BASE_URL env @ ''/reading-lists/'' @ list_id rl,
          req_headers = getAuthHeaders env,
          req_body = Some (list_update (list_name rl) (list_description rl) sent)\<rparr>]"
    by (simp add: evs split: sum.splits)
  have 2: "readingList st' = Some (rl\<lparr>bookIds := sent\<rparr>)
      \<and> books st' = filter (\<lambda>x. book_id x \<noteq> bid) (books st)" if "res = Inr q" for q
    using that by (simp add: st'_def evs)
  have 3: "st' = st" if "res = Inl e" for e
    using that by (simp add: st'_def evs)
  have 4: "sent = bookIds rl
      \<and> map_option bookIds (readingList st') = Some (bookIds rl)
      \<and> map_option (length \<circ> bookIds) (readingList st') = Some (length (bookIds rl))"
    if absent: "bid \<notin> set (bookIds rl)"
  proof -
    from absent have same: "sent = bookIds rl"
      unfolding sent_def by (simp add: filter_id_conv) blast
    show ?thesis
    proof (cases res)
      case (Inl e)
      with 3 rl same show ?thesis by simp
    next
      case (Inr q)
      with 2 same show ?thesis by simp
    qed
  qed
  have 5: "readingList st' = Some (rl\<lparr>bookIds := [''b'']\<rparr>)
      \<and> (book_id ` set (books st) \<subseteq> set (bookIds rl) \<longrightarrow>
           (\<forall>x \<in> set (books st'). book_id x = ''b''))
      \<and> (\<forall>A B. books st = [A, B] \<and> book_id A = ''a'' \<and> book_id B = ''b'' \<longrightarrow>
           books st' = [B])"
    if ex: "bid = ''a'' \<and> bookIds rl = [''a'', ''b''] \<and> res = Inr q" for q
  proof -
    from ex have s: "sent = [''b'']"
      by (simp add: sent_def)
    from ex 2 have bs: "books st' = filter (\<lambda>x. book_id x \<noteq> ''a'') (books st)"
      and l: "readingList st' = Some (rl\<lparr>bookIds := sent\<rparr>)"
      by simp_all
    from ex show ?thesis
      by (auto simp: bs l s)
  qed
  have p2: "\<forall>q. res = Inr q \<longrightarrow>
      readingList st' = Some (rl\<lparr>bookIds := sent\<rparr>)
      \<and> books st' = filter (\<lambda>x. book_id x \<noteq> bid) (books st)"
    by (intro allI impI) (rule 2)
  have p3: "\<forall>e. res = Inl e \<longrightarrow> st' = st"
    by (intro allI impI) (rule 3)
  have p4: "bid \<notin> set (bookIds rl) \<longrightarrow>
      sent = bookIds rl
      \<and> map_option bookIds (readingList st') = Some (bookIds rl)
      \<and> map_option (length \<circ> bookIds) (readingList st') = Some (length (bookIds rl))"
    by (intro impI) (rule 4)
  have p5: "\<forall>q. bid = ''a'' \<and> bookIds rl = [''a'', ''b''] \<and> res = Inr q \<longrightarrow>
      readingList st' = Some (rl\<lparr>bookIds := [''b'']\<rparr>)
      \<and> (book_id ` set (books st) \<subseteq> set (bookIds rl) \<longrightarrow>
           (\<forall>x \<in> set (books st'). book_id x = ''b''))
      \<and> (\<forall>A B. books st = [A, B] \<and> book_id A = ''a'' \<and> book_id B = ''b'' \<longrightarrow>
           books st' = [B])"
    by (intro allI impI) (rule 5)
  show ?thesis
    by (rule conjI [OF 1 conjI [OF p2 conjI [OF p3 conjI [OF p4 p5]]]])
qed

text \<open>The page \<open>detail0\<close> holds the list \<open>[a, b]\<close> and both books; the server accepts the
  update. Removing \<open>c\<close> changes nothing, removing \<open>a\<close> leaves \<open>b\<close>.\<close>

theorem remove_from_list_witness:
  "readingList detail0 = Some list0
   \<and> map_option bookIds
       (readingList (foldl set_listDetail detail0
          (handleRemoveBook (replies env0 (reply 200 ''OK'' (JObj [(''bookIds'', JArr [JStr ''b''])])))
             detail0 ''c'')))
     = Some [''a'', ''b'']
   \<and> readingList (foldl set_listDetail detail0
        (handleRemoveBook (replies env0 (reply 200 ''OK'' (JObj [(''bookIds'', JArr [JStr ''b''])])))
           detail0 ''a''))
     = Some (list0\<lparr>bookIds := [''b'']\<rparr>)
   \<and> books (foldl set_listDetail detail0
        (handleRemoveBook (replies env0 (reply 200 ''OK'' (JObj [(''bookIds'', JArr [JStr ''b''])])))
           detail0 ''a''))
     = [book_b]
   \<and> foldl set_listDetail detail0 (handleRemoveBook env0 detail0 ''a'') = detail0"
proof -
  let ?q = "JObj [(''bookIds'', JArr [JStr ''b''])]"
  let ?env = "replies env0 (reply 200 ''OK'' ?q)"
  have 1: "readingList detail0 = Some list0"
    by (simp add: detail0_def)
  have 2: "''c'' \<notin> set (bookIds list0)" "bookIds list0 = [''a'', ''b'']"
    by (simp_all add: list0_def)
  have 3: "''a'' = ''a'' \<and> bookIds list0 = [''a'', ''b'']
      \<and> snd (updateReadingList ?env (list_id list0)
               (list_update (list_name list0) (list_description list0)
                  (filter (\<lambda>i. i \<noteq> ''a'') (bookIds list0)))) = Inr ?q"
    by (simp add: updateReadingList_def Let_def replies_simps ok_def reply_def list0_def
        proxy_body_def truthy_field_def convert_books_def)
  have 4: "books detail0 = [book_a, book_b] \<and> book_id book_a = ''a'' \<and> book_id book_b = ''b''"
    by (simp add: detail0_def book_a_def book_b_def)
  have 5: "snd (updateReadingList env0 (list_id list0)
               (list_update (list_name list0) (list_description list0)
                  (filter (\<lambda>i. i \<noteq> ''a'') (bookIds list0)))) = Inl (Raised ''NetworkError'')"
    by (simp add: updateReadingList_def Let_def env0_def)
  note absent = remove_from_list [OF 1, where bid = "''c''" and env = ?env,
      THEN conjunct2, THEN conjunct2, THEN conjunct2, THEN conjunct1, rule_format, OF 2(1)]
  then have A: "map_option bookIds
       (readingList (foldl set_listDetail detail0 (handleRemoveBook ?env detail0 ''c'')))
     = Some [''a'', ''b'']"
    by (simp only: 2(2))
  note example = remove_from_list [OF 1, where bid = "''a''" and env = ?env,
      THEN conjunct2, THEN conjunct2, THEN conjunct2, THEN conjunct2, rule_format, OF 3]
  have B: "readingList (foldl set_listDetail detail0 (handleRemoveBook ?env detail0 ''a''))
       = Some (list0\<lparr>bookIds := [''b'']\<rparr>)"
    by (rule example [THEN conjunct1])
  have C: "books (foldl set_listDetail detail0 (handleRemoveBook ?env detail0 ''a'')) = [book_b]"
    by (rule example [THEN conjunct2, THEN conjunct2, rule_format, OF 4])
  have D: "foldl set_listDetail detail0 (handleRemoveBook env0 detail0 ''a'') = detail0"
    by (rule remove_from_list [OF 1, where bid = "''a''" and env = env0,
          THEN conjunct2, THEN conjunct2, THEN conjunct1, rule_format, OF 5])
  show ?thesis
    by (intro conjI) (rule 1 A B C D)+
qed

text \<open>
  Claim C6 as stated fails for its example when the update is refused: the page holds
  the list \<open>[a, b]\<close> and the books \<open>a\<close> and \<open>b\<close>, the transport fails, and after removing
  \<open>a\<close> the page still holds \<open>[a, b]\<close> and both books.
\<close>

theorem remove_refused_counterexample:
  "map_option bookIds (readingList detail0) = Some [''a'', ''b'']
   \<and> books detail0 = [book_a, book_b]
   \<and> map_option bookIds
       (readingList (foldl set_listDetail detail0 (handleRemoveBook env0 detail0 ''a'')))
     = Some [''a'', ''b'']
   \<and> books (foldl set_listDetail detail0 (handleRemoveBook env0 detail0 ''a''))
     = [book_a, book_b]
   \<and> handleRemoveBook env0 detail0 ''a''
     = [Io (Fetch \<lparr>req_method = PUT, req_url = ''https://api.example/reading-lists/l1'',
                   req_headers = [(''Authorization'', ''Bearer token''),
                                  (''Content-Type'', ''application/json'')],
                   req_body = Some (JObj [(''name'', JStr ''Summer''),
                                          (''bookIds'', JArr [JStr ''b''])])\<rparr>),
        HandleApiError (Raised ''NetworkError'')]"
  by (simp add: handleRemoveBook_def updateReadingList_def Let_def detail0_def list0_def
      env0_def getAuthHeaders_def list_update_def)

section \<open>The loading flag of the authentication context\<close>

lemma framed_events:
  "hd ([SetIsLoading True] @ evs @ [SetIsLoading False]) = SetIsLoading True"
  "last ([SetIsLoading True] @ evs @ [SetIsLoading False]) = SetIsLoading False"
  "\<not> isLoading (foldl set_auth st ([SetIsLoading True] @ evs @ [SetIsLoading False]))"
  by simp_all

lemma login_events:
  "\<exists>evs. fst (login p email password) = [SetIsLoading True] @ evs @ [SetIsLoading False]"
  by (simp add: login_def Let_def case_prod_beta)

lemma logout_events:
  "\<exists>evs. fst (logout p) = [SetIsLoading True] @ evs @ [SetIsLoading False]"
  by (simp add: logout_def Let_def case_prod_beta)

lemma signup_events:
  "\<exists>evs. fst (signup p email password name) = [SetIsLoading True] @ evs @ [SetIsLoading False]"
  by (simp add: signup_def Let_def case_prod_beta)

lemma confirmSignup_events:
  "\<exists>evs. fst (confirmSignup p email code) = [SetIsLoading True] @ evs @ [SetIsLoading False]"
  by (simp add: confirmSignup_def Let_def case_prod_beta)

lemma framed:
  assumes "\<exists>evs. es = [SetIsLoading True] @ evs @ [SetIsLoading False]"
  shows "hd es = SetIsLoading True \<and> last es = SetIsLoading False
         \<and> \<not> isLoading (foldl set_auth st es)"
proof -
  from assms obtain evs where "es = [SetIsLoading True] @ evs @ [SetIsLoading False]" ..
  then show ?thesis
    by (simp only: framed_events simp_thms)
qed

lemma login_raises:
  "signIn p email password = Inl e \<Longrightarrow> snd (login p email password) = Inl e"
  "signIn p email password = Inr True \<Longrightarrow> getCurrentUser p = Inl e \<Longrightarrow>
   snd (login p email password) = Inl e"
  "signIn p email password = Inr True \<Longrightarrow> getCurrentUser p = Inr u \<Longrightarrow>
   fetchUserAttributes p = Inl e \<Longrightarrow> snd (login p email password) = Inl e"
  by (simp_all add: login_def Let_def)

lemma others_raise:
  "signOut p = Inl e \<Longrightarrow> snd (logout p) = Inl e"
  "signUp p email password name = Inl e \<Longrightarrow> snd (signup p email password name) = Inl e"
  "confirmSignUp p email code = Inl e \<Longrightarrow> snd (confirmSignup p email code) = Inl e"
  by (simp_all add: logout_def signup_def confirmSignup_def Let_def)

text \<open>
  Claim C9. For each of \<^verbatim>\<open>login\<close>, \<^verbatim>\<open>logout\<close>, \<^verbatim>\<open>signup\<close> and \<^verbatim>\<open>confirmSignup\<close>, on
  every path: the first setter called is \<^verbatim>\<open>setIsLoading(true)\<close>, the last is
  \<^verbatim>\<open>setIsLoading(false)\<close>, and the loading flag is false once the setters have taken
  effect, whatever the state before. An error of the provider (of \<^verbatim>\<open>signIn\<close>,
  \<^verbatim>\<open>getCurrentUser\<close> or \<^verbatim>\<open>fetchUserAttributes\<close> in \<^verbatim>\<open>login\<close>, of \<^verbatim>\<open>signOut\<close>, \<^verbatim>\<open>signUp\<close>
  or \<^verbatim>\<open>confirmSignUp\<close> in the others) is the error the call raises.
\<close>

theorem loading_flag_cleared:
  "hd (fst (login p email password)) = SetIsLoading True
   \<and> last (fst (login p email password)) = SetIsLoading False
   \<and> \<not> isLoading (foldl set_auth st (fst (login p email password)))
   \<and> hd (fst (logout p)) = SetIsLoading True
   \<and> last (fst (logout p)) = SetIsLoading False
   \<and> \<not> isLoading (foldl set_auth st (fst (logout p)))
   \<and> hd (fst (signup p email password name)) = SetIsLoading True
   \<and> last (fst (signup p email password name)) = SetIsLoading False
   \<and> \<not> isLoading (foldl set_auth st (fst (signup p email password name)))
   \<and> hd (fst (confirmSignup p email code)) = SetIsLoading True
   \<and> last (fst (confirmSignup p email code)) = SetIsLoading False
   \<and> \<not> isLoading (foldl set_auth st (fst (confirmSignup p email code)))
   \<and> (\<forall>e. signIn p email password = Inl e \<longrightarrow> snd (login p email password) = Inl e)
   \<and> (\<forall>e. signIn p email password = Inr True \<and> getCurrentUser p = Inl e \<longrightarrow>
          snd (login p email password) = Inl e)
   \<and> (\<forall>e u. signIn p email password = Inr True \<and> getCurrentUser p = Inr u
          \<and> fetchUserAttributes p = Inl e \<longrightarrow>
          snd (login p email password) = Inl e)
   \<and> (\<forall>e. signOut p = Inl e \<longrightarrow> snd (logout p) = Inl e)
   \<and> (\<forall>e. signUp p email password name = Inl e \<longrightarrow>
          snd (signup p email password name) = Inl e)
   \<and> (\<forall>e. confirmSignUp p email code = Inl e \<longrightarrow>
          snd (confirmSignup p email code) = Inl e)"
proof -
  note a = framed [OF login_events, of p email password st]
  note b = framed [OF logout_events, of p st]
  note c = framed [OF signup_events, of p email password name st]
  note d = framed [OF confirmSignup_events, of p email code st]
  have e: "\<forall>e. signIn p email password = Inl e \<longrightarrow> snd (login p email password) = Inl e"
    "\<forall>e. signIn p email password = Inr True \<and> getCurrentUser p = Inl e \<longrightarrow>
       snd (login p email password) = Inl e"
    "\<forall>e u. signIn p email password = Inr True \<and> getCurrentUser p = Inr u
       \<and> fetchUserAttributes p = Inl e \<longrightarrow> snd (login p email password) = Inl e"
    using login_raises [of p email password] by blast+
  have f: "\<forall>e. signOut p = Inl e \<longrightarrow> snd (logout p) = Inl e"
    "\<forall>e. signUp p email password name = Inl e \<longrightarrow> snd (signup p email password name) = Inl e"
    "\<forall>e. confirmSignUp p email code = Inl e \<longrightarrow> snd (confirmSignup p email code) = Inl e"
    using others_raise [of p] by blast+
  from a b c d e f show ?thesis
    by blast
qed

text \<open>
  With \<open>provider0\<close> a wrong password fails at \<^verbatim>\<open>signIn\<close>, the right one at
  \<^verbatim>\<open>fetchUserAttributes\<close>, and the other three calls fail at the provider; each error
  reaches the caller and the flag ends false, also from a state where it was true.
\<close>

theorem loading_flag_cleared_witness:
  "snd (login provider0 ''ann@example.org'' ''guess'') = Inl (Raised ''NotAuthorizedException'')
   \<and> snd (login provider0 ''ann@example.org'' ''secret'') = Inl (Raised ''NetworkError'')
   \<and> snd (logout provider0) = Inl (Raised ''NetworkError'')
   \<and> snd (signup provider0 ''ann@example.org'' ''secret'' ''Ann'')
       = Inl (Raised ''UsernameExistsException'')
   \<and> snd (confirmSignup provider0 ''ann@example.org'' ''123456'')
       = Inl (Raised ''CodeMismatchException'')
   \<and> fst (login provider0 ''ann@example.org'' ''secret'') = [SetIsLoading True, SetIsLoading False]
   \<and> \<not> isLoading (foldl set_auth \<lparr>user = None, isLoading = True\<rparr>
                      (fst (login provider0 ''ann@example.org'' ''secret'')))"
proof -
  have 1: "signIn provider0 ''ann@example.org'' ''guess'' = Inl (Raised ''NotAuthorizedException'')"
    by (simp add: provider0_def)
  have 2: "signIn provider0 ''ann@example.org'' ''secret'' = Inr True
      \<and> getCurrentUser provider0 = Inr \<lparr>cognito_userId = ''u1'', username = ''ann''\<rparr>
      \<and> fetchUserAttributes provider0 = Inl (Raised ''NetworkError'')"
    by (simp add: provider0_def)
  have 3: "signOut provider0 = Inl (Raised ''NetworkError'')"
    "signUp provider0 ''ann@example.org'' ''secret'' ''Ann'' = Inl (Raised ''UsernameExistsException'')"
    "confirmSignUp provider0 ''ann@example.org'' ''123456'' = Inl (Raised ''CodeMismatchException'')"
    by (simp_all add: provider0_def)
  from loading_flag_cleared [of provider0 "''ann@example.org''" "''guess''"] 1
  have A: "snd (login provider0 ''ann@example.org'' ''guess'') = Inl (Raised ''NotAuthorizedException'')"
    by blast
  note inst = loading_flag_cleared [of provider0 "''ann@example.org''" "''secret''"
      "\<lparr>user = None, isLoading = True\<rparr>" "''Ann''" "''123456''"]
  from inst 2 have B: "snd (login provider0 ''ann@example.org'' ''secret'') = Inl (Raised ''NetworkError'')"
    by blast
  from inst 3 have C: "snd (logout provider0) = Inl (Raised ''NetworkError'')"
    "snd (signup provider0 ''ann@example.org'' ''secret'' ''Ann'')
       = Inl (Raised ''UsernameExistsException'')"
    "snd (confirmSignup provider0 ''ann@example.org'' ''123456'')
       = Inl (Raised ''CodeMismatchException'')"
    by blast+
  from inst have D: "\<not> isLoading (foldl set_auth \<lparr>user = None, isLoading = True\<rparr>
      (fst (login provider0 ''ann@example.org'' ''secret'')))"
    by blast
  have E: "fst (login provider0 ''ann@example.org'' ''secret'') = [SetIsLoading True, SetIsLoading False]"
    by (simp add: login_def Let_def provider0_def)
  from A B C D E show ?thesis
    by blast
qed

end
